theory Spec2Isabelle
  imports Complex_Main "HOL-Library.Word"
begin

section \<open>The fuzzy storage worker (src/fuzzy_storage.cxx)\<close>

text \<open>
  A shallow embedding of the request-processing engine of the fuzzy storage worker:
  the leaky-bucket rate limiter, the write permission check, the statistics
  accumulator, the reply builder, the update pipeline and the receive loop.
  Every function keeps the name of the C++ function it embeds. The worker context
  \<open>rspamd_fuzzy_storage_ctx\<close> is passed explicitly and returned updated; calls
  that leave the process (the backend, the Lua hooks, the event loop, the sockets)
  are appended to a trace of effects kept in the context.
\<close>

subsection \<open>Doubles\<close>

text \<open>
  A C \<open>double\<close> is either NaN or a number. The comparisons follow IEEE 754: every
  ordered comparison with a NaN operand is false, and arithmetic on a NaN yields NaN.
  Numbers are reals: rounding and the infinities are outside this model.
\<close>

datatype c_double = NaN | Fin real

fun isnan :: "c_double \<Rightarrow> bool" where
  "isnan NaN = True"
| "isnan (Fin x) = False"

fun d_less :: "c_double \<Rightarrow> c_double \<Rightarrow> bool" where
  "d_less (Fin x) (Fin y) = (x < y)"
| "d_less _ _ = False"

fun d_greater :: "c_double \<Rightarrow> c_double \<Rightarrow> bool" where
  "d_greater (Fin x) (Fin y) = (x > y)"
| "d_greater _ _ = False"

fun d_ge :: "c_double \<Rightarrow> c_double \<Rightarrow> bool" where
  "d_ge (Fin x) (Fin y) = (x \<ge> y)"
| "d_ge _ _ = False"

fun d_eq :: "c_double \<Rightarrow> c_double \<Rightarrow> bool" where
  "d_eq (Fin x) (Fin y) = (x = y)"
| "d_eq _ _ = False"

fun d_add :: "c_double \<Rightarrow> c_double \<Rightarrow> c_double" where
  "d_add (Fin x) (Fin y) = Fin (x + y)"
| "d_add _ _ = NaN"

fun d_sub :: "c_double \<Rightarrow> c_double \<Rightarrow> c_double" where
  "d_sub (Fin x) (Fin y) = Fin (x - y)"
| "d_sub _ _ = NaN"

fun d_mul :: "c_double \<Rightarrow> c_double \<Rightarrow> c_double" where
  "d_mul (Fin x) (Fin y) = Fin (x * y)"
| "d_mul _ _ = NaN"

text \<open>
  An event-loop timestamp (\<open>ev_tstamp\<close>, the value of \<open>ev_now\<close>) is always a number,
  so it is a real. The cast \<open>(time_t) timestamp\<close> truncates towards zero.
\<close>

type_synonym ev_tstamp = real

definition time_t_of :: "ev_tstamp \<Rightarrow> int" where
  "time_t_of t = (if 0 \<le> t then \<lfloor>t\<rfloor> else \<lceil>t\<rceil>)"

subsection \<open>Addresses and maps\<close>

text \<open>
  \<open>rspamd_inet_addr_t\<close>: an address with its family. The constructors carry the
  names of the address families the source tests with \<open>rspamd_inet_address_get_af\<close>.
\<close>

datatype rspamd_inet_addr_t =
  AF_INET "32 word"
| AF_INET6 "128 word"
| AF_UNIX string

text \<open>
  Modelled from the spec: \<open>rspamd_inet_address_apply_mask\<close>, which is not among the
  sources. Masking to \<open>n\<close> bits keeps the \<open>n\<close> most significant bits of an IPv4 or
  IPv6 address and clears the rest; other families are left as they are.
\<close>

definition keep_high_bits :: "nat \<Rightarrow> 'a::len word \<Rightarrow> 'a word" where
  "keep_high_bits n w = push_bit (LENGTH('a) - n) (drop_bit (LENGTH('a) - n) w)"

fun rspamd_inet_address_apply_mask :: "rspamd_inet_addr_t \<Rightarrow> nat \<Rightarrow> rspamd_inet_addr_t" where
  "rspamd_inet_address_apply_mask (AF_INET a) n = AF_INET (keep_high_bits n a)"
| "rspamd_inet_address_apply_mask (AF_INET6 a) n = AF_INET6 (keep_high_bits n a)"
| "rspamd_inet_address_apply_mask (AF_UNIX p) n = AF_UNIX p"

text \<open>
  The address and hash maps are external collaborators that answer "does this address
  (this string) match?". A map is the predicate it decides; a null map pointer is
  \<open>None\<close>.
\<close>

type_synonym rspamd_radix_map_helper = "rspamd_inet_addr_t \<Rightarrow> bool"
type_synonym rspamd_hash_map_helper = "string \<Rightarrow> bool"

text \<open>
  The test \<open>map != nullptr && rspamd_match_radix_map_addr (map, addr) != nullptr\<close>,
  and the same for a hash map.
\<close>

definition radix_map_matches :: "rspamd_radix_map_helper option \<Rightarrow> rspamd_inet_addr_t \<Rightarrow> bool" where
  "radix_map_matches m a = (case m of None \<Rightarrow> False | Some p \<Rightarrow> p a)"

definition hash_map_matches :: "rspamd_hash_map_helper option \<Rightarrow> string \<Rightarrow> bool" where
  "hash_map_matches m k = (case m of None \<Rightarrow> False | Some p \<Rightarrow> p k)"

subsection \<open>The LRU hash\<close>

text \<open>
  Modelled from the spec: the LRU hash (\<open>rspamd_lru_hash_lookup\<close>,
  \<open>rspamd_lru_hash_insert\<close>), which is not among the sources. It is a table of
  bounded capacity whose entries may carry a time to live. A lookup of an entry whose
  time to live has passed removes the entry and finds nothing; a hit makes the entry the
  most recently used one. An insert replaces an entry of the same key, and evicts the
  least recently used entries when the table is full. The nodes are kept most recently
  used first. A time to live that is not positive means the entry does not expire.
\<close>

record ('k, 'v) rspamd_lru_element_t =
  lru_key :: 'k
  lru_data :: 'v
  creation_time :: int
  lru_ttl :: int

record ('k, 'v) rspamd_lru_hash_t =
  maxsize :: nat
  nodes :: "('k, 'v) rspamd_lru_element_t list"

definition lru_expired :: "('k, 'v) rspamd_lru_element_t \<Rightarrow> int \<Rightarrow> bool" where
  "lru_expired e now = (0 < lru_ttl e \<and> lru_ttl e < now - creation_time e)"

definition lru_peek :: "('k, 'v) rspamd_lru_hash_t \<Rightarrow> 'k \<Rightarrow> ('k, 'v) rspamd_lru_element_t option" where
  "lru_peek h k = find (\<lambda>e. lru_key e = k) (nodes h)"

definition lru_others :: "('k, 'v) rspamd_lru_hash_t \<Rightarrow> 'k \<Rightarrow> ('k, 'v) rspamd_lru_element_t list" where
  "lru_others h k = filter (\<lambda>e. lru_key e \<noteq> k) (nodes h)"

definition rspamd_lru_hash_lookup ::
  "('k, 'v) rspamd_lru_hash_t \<Rightarrow> 'k \<Rightarrow> int \<Rightarrow> 'v option \<times> ('k, 'v) rspamd_lru_hash_t" where
  "rspamd_lru_hash_lookup h k now =
     (case lru_peek h k of
        None \<Rightarrow> (None, h)
      | Some e \<Rightarrow>
          if lru_expired e now then (None, h\<lparr>nodes := lru_others h k\<rparr>)
          else (Some (lru_data e), h\<lparr>nodes := e # lru_others h k\<rparr>))"

definition rspamd_lru_hash_insert ::
  "('k, 'v) rspamd_lru_hash_t \<Rightarrow> 'k \<Rightarrow> 'v \<Rightarrow> int \<Rightarrow> int \<Rightarrow> ('k, 'v) rspamd_lru_hash_t" where
  "rspamd_lru_hash_insert h k v now ttl =
     h\<lparr>nodes := \<lparr>lru_key = k, lru_data = v, creation_time = now, lru_ttl = ttl\<rparr>
                  # take (maxsize h - 1) (lru_others h k)\<rparr>"

text \<open>
  The table stores pointers: a write through the pointer that a lookup returned changes
  the stored value in place.
\<close>

definition lru_store :: "('k, 'v) rspamd_lru_hash_t \<Rightarrow> 'k \<Rightarrow> 'v \<Rightarrow> ('k, 'v) rspamd_lru_hash_t" where
  "lru_store h k v = h\<lparr>nodes := map (\<lambda>e. if lru_key e = k then e\<lparr>lru_data := v\<rparr> else e) (nodes h)\<rparr>"

subsection \<open>Commands, replies and statistics\<close>

text \<open>
  Modelled from the spec: the command kinds of the wire protocol (the header that
  declares \<open>FUZZY_CHECK\<close>, ... is not among the sources).
\<close>

datatype fuzzy_cmd_kind = FUZZY_CHECK | FUZZY_WRITE | FUZZY_DEL | FUZZY_STAT | FUZZY_REFRESH

record rspamd_fuzzy_cmd =
  version :: "8 word"
  cmd :: fuzzy_cmd_kind
  shingles_count :: "8 word"
  flag :: "32 word"
  tag :: "32 word"
  digest :: "8 word list"

record rspamd_fuzzy_reply =
  rep_value :: "32 word"
  rep_prob :: c_double
  rep_flag :: "32 word"
  rep_tag :: "32 word"
  rep_ts :: "64 word"
  rep_digest :: "8 word list"

record fuzzy_peer_cmd =
  is_shingle :: bool
  peer_normal :: rspamd_fuzzy_cmd
  peer_sgl :: "64 word list option"

datatype rspamd_fuzzy_epoch = RSPAMD_FUZZY_EPOCH10 | RSPAMD_FUZZY_EPOCH11 | RSPAMD_FUZZY_EPOCH_MAX

record fuzzy_global_stat =
  fuzzy_hashes :: "64 word"
  fuzzy_hashes_expired :: "64 word"
  fuzzy_hashes_checked :: "rspamd_fuzzy_epoch \<Rightarrow> 64 word"
  fuzzy_shingles_checked :: "rspamd_fuzzy_epoch \<Rightarrow> 64 word"
  fuzzy_hashes_found :: "rspamd_fuzzy_epoch \<Rightarrow> 64 word"
  invalid_requests :: "64 word"
  delayed_hashes :: "64 word"

text \<open>
  Modelled from the spec: \<open>rspamd_counter_data\<close> and \<open>rspamd_set_counter_ema\<close>, which
  are not among the sources: an exponential moving average with weight \<open>alpha\<close>,
  and the number of samples folded in.
\<close>

record rspamd_counter_data =
  mean :: c_double
  number :: "64 word"

definition rspamd_set_counter_ema :: "rspamd_counter_data \<Rightarrow> c_double \<Rightarrow> c_double \<Rightarrow> rspamd_counter_data" where
  "rspamd_set_counter_ema cd v alpha =
     cd\<lparr>mean := d_add (mean cd) (d_mul alpha (d_sub v (mean cd))), number := number cd + 1\<rparr>"

record fuzzy_generic_stat =
  checked :: "64 word"
  matched :: "64 word"
  added :: "64 word"
  deleted :: "64 word"
  errors :: "64 word"
  checked_ctr :: rspamd_counter_data
  matched_ctr :: rspamd_counter_data
  last_checked_time :: c_double
  last_checked_count :: "64 word"
  last_matched_count :: "64 word"

text \<open>
  The constructor \<open>fuzzy_generic_stat()\<close> with its default member initialisers, as
  \<open>new fuzzy_generic_stat\<close> runs it for the statistics of a client address (line 1214).
\<close>

definition new_fuzzy_generic_stat :: fuzzy_generic_stat where
  "new_fuzzy_generic_stat =
     \<lparr>checked = 0, matched = 0, added = 0, deleted = 0, errors = 0,
      checked_ctr = \<lparr>mean = Fin 0, number = 0\<rparr>,
      matched_ctr = \<lparr>mean = Fin 0, number = 0\<rparr>,
      last_checked_time = NaN, last_checked_count = 0, last_matched_count = 0\<rparr>"

text \<open>
  The objects that the code shares through pointers are kept in the context and named
  by what identifies them: a key by the public key under which \<open>ctx->keys\<close> holds it,
  the statistics of a client address by the number of their allocation. The table
  \<open>last_ips\<close> of a key stores pointers to such statistics.
\<close>

type_synonym key_id = "8 word list"
type_synonym stat_ptr = nat

record fuzzy_key_stat = fuzzy_generic_stat +
  last_ips :: "(rspamd_inet_addr_t, stat_ptr) rspamd_lru_hash_t"

text \<open>
  The statistics of a key as \<open>fuzzy_parse_keypair\<close> allocates them (lines 2268-2277):
  \<open>g_malloc0\<close> fills them with zeros, so \<open>last_checked_time\<close> starts as 0.0, and
  \<open>last_ips\<close> is a new table of 1024 entries.
\<close>

definition zeroed_key_stat :: fuzzy_key_stat where
  "zeroed_key_stat =
     \<lparr>checked = 0, matched = 0, added = 0, deleted = 0, errors = 0,
      checked_ctr = \<lparr>mean = Fin 0, number = 0\<rparr>,
      matched_ctr = \<lparr>mean = Fin 0, number = 0\<rparr>,
      last_checked_time = Fin 0, last_checked_count = 0, last_matched_count = 0,
      last_ips = \<lparr>maxsize = 1024, nodes = []\<rparr>\<rparr>"

text \<open>
  A keypair is opaque here. Of a keypair the worker reads its id component and encodes
  it in base32 (the encoder is not among the sources): the keypair carries that string.
\<close>

record rspamd_cryptobox_keypair =
  keypair_id_base32 :: string

record fuzzy_key =
  key :: "rspamd_cryptobox_keypair option"
  forbidden_ids :: "32 word list"
  stat :: fuzzy_key_stat

definition is_forbidden :: "fuzzy_key \<Rightarrow> 32 word \<Rightarrow> bool" where
  "is_forbidden k f = (f \<in> set (forbidden_ids k))"

text \<open>The key that \<open>fuzzy_parse_keypair\<close> allocates for a keypair, with its forbidden flags.\<close>

definition fuzzy_parse_keypair :: "rspamd_cryptobox_keypair \<Rightarrow> 32 word list \<Rightarrow> fuzzy_key" where
  "fuzzy_parse_keypair kp ids = \<lparr>key = Some kp, forbidden_ids = ids, stat = zeroed_key_stat\<rparr>"

record rspamd_leaky_bucket_elt =
  elt_addr :: "rspamd_inet_addr_t option"
  elt_last :: c_double
  elt_cur :: c_double

record rspamd_updates_cbdata =
  cb_updates_pending :: "fuzzy_peer_cmd list"
  cb_source :: string
  cb_final :: bool

datatype fuzzy_cmd_type = CMD_NORMAL | CMD_SHINGLE | CMD_ENCRYPTED_NORMAL | CMD_ENCRYPTED_SHINGLE

text \<open>
  What a Lua hook hands back: the call fails, or it returns a list of values.
  \<open>lua_toboolean\<close> is false for nil, for false and for a missing value;
  \<open>lua_tointeger\<close> is 0 for anything that is not a number.
\<close>

datatype lua_value = Lua_nil | Lua_boolean bool | Lua_number c_double | Lua_other

datatype lua_result = Lua_error | Lua_return "lua_value list"

fun lua_toboolean :: "lua_value list \<Rightarrow> nat \<Rightarrow> bool" where
  "lua_toboolean vs i =
     (if i < length vs then
        (case vs ! i of Lua_nil \<Rightarrow> False | Lua_boolean b \<Rightarrow> b | _ \<Rightarrow> True)
      else False)"

fun lua_isnumber :: "lua_value list \<Rightarrow> nat \<Rightarrow> bool" where
  "lua_isnumber vs i =
     (if i < length vs then (case vs ! i of Lua_number x \<Rightarrow> True | _ \<Rightarrow> False) else False)"

fun lua_tonumber :: "lua_value list \<Rightarrow> nat \<Rightarrow> c_double" where
  "lua_tonumber vs i =
     (if i < length vs then (case vs ! i of Lua_number x \<Rightarrow> x | _ \<Rightarrow> Fin 0) else Fin 0)"

fun lua_tointeger :: "lua_value list \<Rightarrow> nat \<Rightarrow> int" where
  "lua_tointeger vs i =
     (case lua_tonumber vs i of Fin x \<Rightarrow> (if 0 \<le> x then \<lfloor>x\<rfloor> else \<lceil>x\<rceil>) | NaN \<Rightarrow> 0)"

datatype rspamd_fuzzy_ext = RSPAMD_FUZZY_EXT_SOURCE_DOMAIN | RSPAMD_FUZZY_EXT_SOURCE_IP4 | RSPAMD_FUZZY_EXT_SOURCE_IP6

type_synonym rspamd_fuzzy_cmd_extension = "rspamd_fuzzy_ext \<times> 8 word list"

type_synonym lua_pre_handler =
  "rspamd_inet_addr_t option \<Rightarrow> fuzzy_cmd_kind \<Rightarrow> 8 word list \<Rightarrow> bool
     \<Rightarrow> rspamd_fuzzy_cmd_extension list \<Rightarrow> lua_result"

text \<open>
  The post-handler gets, after the address, the command, the digest and the shingle
  flag, the value, the probability, the flag and the timestamp of the result.
\<close>

type_synonym lua_post_handler =
  "rspamd_inet_addr_t option \<Rightarrow> fuzzy_cmd_kind \<Rightarrow> 8 word list \<Rightarrow> bool
     \<Rightarrow> 32 word \<Rightarrow> c_double \<Rightarrow> 32 word \<Rightarrow> 64 word
     \<Rightarrow> rspamd_fuzzy_cmd_extension list \<Rightarrow> lua_result"

subsection \<open>The session and the worker context\<close>

text \<open>
  \<open>fuzzy_session\<close>. The pointers \<open>key\<close> and \<open>ip_stat\<close> of a session name the key
  and the statistics of the client address that they point to; a null pointer is
  \<open>None\<close>.
\<close>

record fuzzy_session =
  addr :: "rspamd_inet_addr_t option"
  cmd_basic :: rspamd_fuzzy_cmd
  cmd_sgl :: "64 word list"
  reply :: rspamd_fuzzy_reply
  epoch :: rspamd_fuzzy_epoch
  cmd_type :: fuzzy_cmd_type
  timestamp :: ev_tstamp
  ip_stat :: "stat_ptr option"
  session_key :: "key_id option"
  extensions :: "rspamd_fuzzy_cmd_extension list"

text \<open>
  What the worker does to the outside, in the order it does it: a call of the Lua
  blacklist hook, \<open>ev_break\<close>, the backend calls (a check carries the session that
  its callback will get), a reply handed to \<open>rspamd_inet_address_sendto\<close> (with the
  flags "encrypted" and "with the timestamp of the v2 layout"), and a command written
  to the peer pipe.
\<close>

datatype effect =
  Lua_blacklist rspamd_inet_addr_t string
| Ev_break
| Backend_process_updates rspamd_updates_cbdata
| Backend_count
| Backend_version string
| Backend_check fuzzy_session
| Sendto "rspamd_inet_addr_t option" rspamd_fuzzy_reply bool bool
| Peer_send fuzzy_peer_cmd

text \<open>
  \<open>rspamd_fuzzy_storage_ctx\<close>, with the fields the embedded functions read or write.
  A pointer that the source tests against null (a map, the bucket table, the pending
  queue) is an option. \<open>worker_index\<close> and \<open>worker_running\<close> are
  \<open>worker->index\<close> and \<open>worker->state == rspamd_worker_state_running\<close>. A registered
  Lua handler (\<open>lua_pre_handler_cbref != -1\<close>, \<open>lua_post_handler_cbref != -1\<close>) is
  the function it computes. \<open>keys\<close> holds the key objects and \<open>ip_stats\<close> the
  statistics objects of the client addresses, of which \<open>ip_stats_allocated\<close> have been
  allocated; an object is changed in place by a store under its name.
\<close>

record rspamd_fuzzy_storage_ctx =
  ctx_stat :: fuzzy_global_stat
  delay :: c_double
  update_ips :: "rspamd_radix_map_helper option"
  update_keys :: "rspamd_hash_map_helper option"
  blocked_ips :: "rspamd_radix_map_helper option"
  ratelimit_whitelist :: "rspamd_radix_map_helper option"
  delay_whitelist :: "rspamd_radix_map_helper option"
  keys :: "key_id \<Rightarrow> fuzzy_key"
  ip_stats :: "stat_ptr \<Rightarrow> fuzzy_generic_stat"
  ip_stats_allocated :: nat
  encrypted_only :: bool
  read_only :: bool
  errors_ips :: "(rspamd_inet_addr_t, 64 word) rspamd_lru_hash_t"
  ratelimit_buckets :: "(rspamd_inet_addr_t, rspamd_leaky_bucket_elt) rspamd_lru_hash_t option"
  updates_pending :: "fuzzy_peer_cmd list option"
  updates_failed :: "32 word"
  updates_maxfail :: "32 word"
  peer_fd :: int
  leaky_bucket_ttl :: "32 word"
  leaky_bucket_mask :: "32 word"
  max_buckets :: "32 word"
  ratelimit_log_only :: bool
  leaky_bucket_burst :: c_double
  leaky_bucket_rate :: c_double
  worker_index :: nat
  worker_running :: bool
  skip_hashes :: "rspamd_hash_map_helper option"
  lua_pre_handler :: "lua_pre_handler option"
  lua_post_handler :: "lua_post_handler option"
  lua_blacklist_cbref :: int
  effects :: "effect list"

text \<open>A null pointer that the source dereferences without a test is a fault.\<close>

datatype fault = Null_dereference

subsection \<open>The rate limiter\<close>

definition rspamd_fuzzy_maybe_call_blacklisted ::
  "rspamd_fuzzy_storage_ctx \<Rightarrow> rspamd_inet_addr_t \<Rightarrow> string \<Rightarrow> rspamd_fuzzy_storage_ctx" where
  "rspamd_fuzzy_maybe_call_blacklisted ctx a reason =
     (if lua_blacklist_cbref ctx \<noteq> - 1
      then ctx\<lparr>effects := effects ctx @ [Lua_blacklist a reason]\<rparr>
      else ctx)"

text \<open>The masked copy of the source address (lines 354-364).\<close>

definition ratelimit_masked :: "rspamd_fuzzy_storage_ctx \<Rightarrow> rspamd_inet_addr_t \<Rightarrow> rspamd_inet_addr_t" where
  "ratelimit_masked ctx a =
     (case a of
        AF_INET _ \<Rightarrow> rspamd_inet_address_apply_mask a (unat (min (leaky_bucket_mask ctx) 32))
      | _ \<Rightarrow> rspamd_inet_address_apply_mask a
               (unat (min (max (leaky_bucket_mask ctx * 4) 64) 128)))"

text \<open>"Update bucket" (lines 378-388): the level leaks at the configured rate.\<close>

definition leaky_bucket_update ::
  "rspamd_fuzzy_storage_ctx \<Rightarrow> ev_tstamp \<Rightarrow> rspamd_leaky_bucket_elt \<Rightarrow> rspamd_leaky_bucket_elt" where
  "leaky_bucket_update ctx ts elt =
     (if d_less (elt_last elt) (Fin ts) then
        let cur1 = d_sub (elt_cur elt)
                     (d_mul (leaky_bucket_rate ctx) (d_sub (Fin ts) (elt_last elt)))
        in elt\<lparr>elt_cur := (if d_less cur1 (Fin 0) then Fin 0 else cur1), elt_last := Fin ts\<rparr>
      else elt\<lparr>elt_last := Fin ts\<rparr>)"

text \<open>"Check bucket" (lines 391-401).\<close>

definition leaky_bucket_check ::
  "rspamd_fuzzy_storage_ctx \<Rightarrow> rspamd_leaky_bucket_elt \<Rightarrow> rspamd_leaky_bucket_elt" where
  "leaky_bucket_check ctx elt =
     (if d_ge (elt_cur elt) (leaky_bucket_burst ctx) then elt\<lparr>elt_cur := NaN\<rparr>
      else elt\<lparr>elt_cur := d_add (elt_cur elt) (Fin 1)\<rparr>)"

text \<open>
  \<open>rspamd_fuzzy_check_ratelimit\<close> (lines 334-427). The local flag \<open>ratelimited\<close>
  is set only where the level of the bucket is found NaN; the function returns its
  negation and calls the blacklist hook when it is set. A bucket that is found with a
  level is updated and checked in place, and the flag stays false. A source without a
  bucket gets a new one at level 1.
\<close>

definition rspamd_fuzzy_check_ratelimit ::
  "fuzzy_session \<Rightarrow> rspamd_fuzzy_storage_ctx \<Rightarrow> fault + bool \<times> rspamd_fuzzy_storage_ctx" where
  "rspamd_fuzzy_check_ratelimit session ctx =
     (case addr session of
        None \<Rightarrow> Inr (True, ctx)
      | Some a \<Rightarrow>
          if radix_map_matches (ratelimit_whitelist ctx) a then Inr (True, ctx)
          else
            (case ratelimit_buckets ctx of
               None \<Rightarrow> Inl Null_dereference
             | Some buckets \<Rightarrow>
                 let masked = ratelimit_masked ctx a;
                     found = rspamd_lru_hash_lookup buckets masked (time_t_of (timestamp session))
                 in (case fst found of
                       Some elt \<Rightarrow>
                         if isnan (elt_cur elt) then
                           Inr (False,
                                rspamd_fuzzy_maybe_call_blacklisted
                                  (ctx\<lparr>ratelimit_buckets := Some (snd found)\<rparr>) a ''ratelimit'')
                         else
                           Inr (True,
                                ctx\<lparr>ratelimit_buckets :=
                                      Some (lru_store (snd found) masked
                                              (leaky_bucket_check ctx
                                                 (leaky_bucket_update ctx (timestamp session) elt)))\<rparr>)
                     | None \<Rightarrow>
                         Inr (True,
                              ctx\<lparr>ratelimit_buckets :=
                                    Some (rspamd_lru_hash_insert (snd found) masked
                                            \<lparr>elt_addr = Some masked, elt_last = Fin (timestamp session),
                                             elt_cur = Fin 1\<rparr>
                                            (time_t_of (timestamp session))
                                            (uint (leaky_bucket_ttl ctx)))\<rparr>))))"

subsection \<open>Start-up\<close>

text \<open>
  \<open>init_fuzzy\<close> allocates a zeroed context and sets the defaults (lines 2322-2349);
  the configuration may then set the options and the keys (no key is configured here,
  and the objects that are not allocated yet hold their initial values).
  \<open>start_fuzzy\<close> sets \<open>peer_fd = -1\<close>, allocates the pending queue on worker 0 and
  allocates the bucket table exactly when rate and burst are both set (lines 2652,
  2682-2684, 2786-2790). Only the state that the functions below use is kept.
\<close>

definition init_fuzzy :: rspamd_fuzzy_storage_ctx where
  "init_fuzzy =
     \<lparr>ctx_stat = \<lparr>fuzzy_hashes = 0, fuzzy_hashes_expired = 0,
                  fuzzy_hashes_checked = (\<lambda>e. 0), fuzzy_shingles_checked = (\<lambda>e. 0),
                  fuzzy_hashes_found = (\<lambda>e. 0), invalid_requests = 0, delayed_hashes = 0\<rparr>,
      delay = NaN,
      update_ips = None, update_keys = None, blocked_ips = None, ratelimit_whitelist = None,
      delay_whitelist = None,
      keys = (\<lambda>id. \<lparr>key = None, forbidden_ids = [], stat = zeroed_key_stat\<rparr>),
      ip_stats = (\<lambda>p. new_fuzzy_generic_stat), ip_stats_allocated = 0,
      encrypted_only = False, read_only = False,
      errors_ips = \<lparr>maxsize = 1024, nodes = []\<rparr>,
      ratelimit_buckets = None, updates_pending = None,
      updates_failed = 0, updates_maxfail = 3,
      peer_fd = 0,
      leaky_bucket_ttl = 3600, leaky_bucket_mask = 24, max_buckets = 2000,
      ratelimit_log_only = False, leaky_bucket_burst = NaN, leaky_bucket_rate = NaN,
      worker_index = 0, worker_running = True,
      skip_hashes = None, lua_pre_handler = None, lua_post_handler = None,
      lua_blacklist_cbref = - 1, effects = []\<rparr>"

definition start_fuzzy :: "nat \<Rightarrow> rspamd_fuzzy_storage_ctx \<Rightarrow> rspamd_fuzzy_storage_ctx" where
  "start_fuzzy index ctx =
     ctx\<lparr>peer_fd := - 1, worker_index := index,
         updates_pending := (if index = 0 then Some [] else updates_pending ctx),
         ratelimit_buckets :=
           (if \<not> isnan (leaky_bucket_rate ctx) \<and> \<not> isnan (leaky_bucket_burst ctx)
            then Some \<lparr>maxsize = unat (max_buckets ctx), nodes = []\<rparr>
            else ratelimit_buckets ctx)\<rparr>"

subsection \<open>Sequences of rate-limiter calls\<close>

text \<open>A sequence of rate-limiter calls, each on the context the previous one left.\<close>

fun rspamd_fuzzy_check_ratelimit_all ::
  "fuzzy_session list \<Rightarrow> rspamd_fuzzy_storage_ctx \<Rightarrow> fault + bool list \<times> rspamd_fuzzy_storage_ctx" where
  "rspamd_fuzzy_check_ratelimit_all [] ctx = Inr ([], ctx)"
| "rspamd_fuzzy_check_ratelimit_all (s # ss) ctx =
     (case rspamd_fuzzy_check_ratelimit s ctx of
        Inl f \<Rightarrow> Inl f
      | Inr (b, ctx1) \<Rightarrow>
          (case rspamd_fuzzy_check_ratelimit_all ss ctx1 of
             Inl f \<Rightarrow> Inl f
           | Inr (bs, ctx2) \<Rightarrow> Inr (b # bs, ctx2)))"

subsection \<open>Specification predicates for the rate limiter\<close>

text \<open>
  The bound on a bucket level as the specification states it: the level is NaN, or it
  lies between 0 and the burst.
\<close>

definition level_within_burst :: "real \<Rightarrow> c_double \<Rightarrow> bool" where
  "level_within_burst b c = (case c of NaN \<Rightarrow> True | Fin x \<Rightarrow> 0 \<le> x \<and> x \<le> b)"

text \<open>
  The bound that the code keeps: a level below the burst is incremented, so a level may
  exceed the burst by up to one; a new bucket starts at level 1.
\<close>

definition level_in_bounds :: "real \<Rightarrow> c_double \<Rightarrow> bool" where
  "level_in_bounds b c = (case c of NaN \<Rightarrow> True | Fin x \<Rightarrow> 0 \<le> x \<and> x \<le> max 1 (b + 1))"

definition buckets_in_bounds :: "real \<Rightarrow> rspamd_fuzzy_storage_ctx \<Rightarrow> bool" where
  "buckets_in_bounds b ctx =
     (case ratelimit_buckets ctx of
        None \<Rightarrow> False
      | Some h \<Rightarrow> list_all (\<lambda>e. level_in_bounds b (elt_cur (lru_data e))) (nodes h))"

text \<open>The levels of all buckets of the table, most recently used first.\<close>

definition bucket_levels :: "rspamd_fuzzy_storage_ctx \<Rightarrow> c_double list" where
  "bucket_levels ctx =
     (case ratelimit_buckets ctx of
        None \<Rightarrow> []
      | Some h \<Rightarrow> map (\<lambda>e. elt_cur (lru_data e)) (nodes h))"

text \<open>A CHECK request of a client at a given time, as the receive loop builds the session.\<close>

definition check_session :: "rspamd_inet_addr_t \<Rightarrow> ev_tstamp \<Rightarrow> fuzzy_session" where
  "check_session a t =
     \<lparr>addr = Some a,
      cmd_basic = \<lparr>version = 4, cmd = FUZZY_CHECK, shingles_count = 0, flag = 0, tag = 42,
                   digest = replicate 64 1\<rparr>,
      cmd_sgl = [],
      reply = \<lparr>rep_value = 0, rep_prob = Fin 0, rep_flag = 0, rep_tag = 0, rep_ts = 0,
               rep_digest = []\<rparr>,
      epoch = RSPAMD_FUZZY_EPOCH11, cmd_type = CMD_NORMAL, timestamp = t,
      ip_stat = None, session_key = None, extensions = []\<rparr>"

text \<open>A worker with a rate limit of the given rate and burst on /32 networks.\<close>

definition ratelimit_ctx :: "real \<Rightarrow> real \<Rightarrow> rspamd_fuzzy_storage_ctx" where
  "ratelimit_ctx rate burst =
     start_fuzzy 0 (init_fuzzy\<lparr>leaky_bucket_rate := Fin rate, leaky_bucket_burst := Fin burst,
                               leaky_bucket_mask := 32, lua_blacklist_cbref := 1\<rparr>)"

text \<open>What a run of the rate limiter shows: the decisions, the bucket levels, the hook calls.\<close>

definition ratelimit_run ::
  "fuzzy_session list \<Rightarrow> rspamd_fuzzy_storage_ctx \<Rightarrow> fault + bool list \<times> c_double list \<times> effect list" where
  "ratelimit_run ss ctx =
     (case rspamd_fuzzy_check_ratelimit_all ss ctx of
        Inl f \<Rightarrow> Inl f
      | Inr (rs, ctx1) \<Rightarrow> Inr (rs, bucket_levels ctx1, effects ctx1))"

text \<open>A table that holds one bucket, already rate limited, created at time 100.\<close>

definition ratelimited_elt :: "(rspamd_inet_addr_t, rspamd_leaky_bucket_elt) rspamd_lru_element_t" where
  "ratelimited_elt =
     \<lparr>lru_key = AF_INET 0x01020304,
      lru_data = \<lparr>elt_addr = Some (AF_INET 0x01020304), elt_last = Fin 100, elt_cur = NaN\<rparr>,
      creation_time = 100, lru_ttl = 3600\<rparr>"

definition ratelimited_ctx :: rspamd_fuzzy_storage_ctx where
  "ratelimited_ctx = (ratelimit_ctx 0 2)\<lparr>ratelimit_buckets := Some \<lparr>maxsize = 2000, nodes = [ratelimited_elt]\<rparr>\<rparr>"

subsection \<open>The update pipeline\<close>

text \<open>
  \<open>rspamd_fuzzy_process_updates_queue\<close> (lines 625-644). The new transaction
  (\<open>rspamd_updates_cbdata\<close>) is built with an empty vector of its own; \<open>std::swap\<close>
  exchanges it with the pending queue of the context. The transaction handed to
  \<open>rspamd_fuzzy_backend_process_updates\<close> is recorded in the trace; the backend answers
  later through \<open>rspamd_fuzzy_updates_cb\<close>.
\<close>

definition rspamd_fuzzy_process_updates_queue ::
  "rspamd_fuzzy_storage_ctx \<Rightarrow> string \<Rightarrow> bool \<Rightarrow> fault + bool \<times> rspamd_fuzzy_storage_ctx" where
  "rspamd_fuzzy_process_updates_queue ctx source final =
     (case updates_pending ctx of
        None \<Rightarrow> Inl Null_dereference
      | Some pending \<Rightarrow>
          if pending \<noteq> [] then
            let cbdata = \<lparr>cb_updates_pending = [], cb_source = source, cb_final = final\<rparr>;
                ctx1 = ctx\<lparr>updates_pending := Some (cb_updates_pending cbdata)\<rparr>;
                cbdata1 = cbdata\<lparr>cb_updates_pending := pending\<rparr>
            in Inr (True, ctx1\<lparr>effects := effects ctx1 @ [Backend_process_updates cbdata1]\<rparr>)
          else if final then Inr (False, ctx\<lparr>effects := effects ctx @ [Ev_break]\<rparr>)
          else Inr (False, ctx))"

text \<open>
  \<open>rspamd_fuzzy_updates_cb\<close> (lines 538-623), the commit callback. The counters
  \<open>nadded\<close>, ... are only logged. The log line of the success branch reads
  \<open>ctx->updates_pending->size()\<close> without a test of the pointer. \<open>++updates_failed\<close>
  is an increment of an \<open>unsigned int\<close> and the comparison is unsigned.
\<close>

definition plan_exit :: "rspamd_updates_cbdata \<Rightarrow> rspamd_fuzzy_storage_ctx \<Rightarrow> rspamd_fuzzy_storage_ctx" where
  "plan_exit cbdata ctx =
     (if cb_final cbdata \<or> \<not> worker_running ctx
      then ctx\<lparr>effects := effects ctx @ [Ev_break]\<rparr>
      else ctx)"

definition rspamd_fuzzy_updates_cb ::
  "bool \<Rightarrow> 32 word \<Rightarrow> 32 word \<Rightarrow> 32 word \<Rightarrow> 32 word \<Rightarrow> rspamd_updates_cbdata
     \<Rightarrow> rspamd_fuzzy_storage_ctx \<Rightarrow> fault + rspamd_fuzzy_storage_ctx" where
  "rspamd_fuzzy_updates_cb success nadded ndeleted nextended nignored cbdata ctx =
     (if success then
        (case updates_pending ctx of
           None \<Rightarrow> Inl Null_dereference
         | Some pending \<Rightarrow>
             let ctx1 = ctx\<lparr>effects := effects ctx @ [Backend_count, Backend_version (cb_source cbdata)]\<rparr>;
                 ctx2 = ctx1\<lparr>updates_failed := 0\<rparr>
             in Inr (plan_exit cbdata ctx2))
      else
        let ctx1 = ctx\<lparr>updates_failed := updates_failed ctx + 1\<rparr>
        in if updates_failed ctx1 > updates_maxfail ctx1 then
             Inr (plan_exit cbdata (ctx1\<lparr>updates_failed := 0\<rparr>))
           else
             (case updates_pending ctx1 of
                Some pending \<Rightarrow>
                  let ctx2 = ctx1\<lparr>updates_pending := Some (pending @ cb_updates_pending cbdata)\<rparr>
                  in if cb_final cbdata then
                       (case rspamd_fuzzy_process_updates_queue ctx2 (cb_source cbdata) (cb_final cbdata) of
                          Inl f \<Rightarrow> Inl f
                        | Inr (r, ctx3) \<Rightarrow> Inr ctx3)
                     else Inr ctx2
              | None \<Rightarrow> Inr ctx1))"

text \<open>A WRITE command for the pending queue, told apart by its tag.\<close>

definition write_cmd :: "32 word \<Rightarrow> fuzzy_peer_cmd" where
  "write_cmd t =
     \<lparr>is_shingle = False,
      peer_normal = \<lparr>version = 4, cmd = FUZZY_WRITE, shingles_count = 0, flag = 1, tag = t,
                     digest = replicate 64 1\<rparr>,
      peer_sgl = None\<rparr>"

text \<open>Worker 0 with the given pending queue and count of failed commits.\<close>

definition update_ctx :: "fuzzy_peer_cmd list \<Rightarrow> 32 word \<Rightarrow> rspamd_fuzzy_storage_ctx" where
  "update_ctx q n = (start_fuzzy 0 init_fuzzy)\<lparr>updates_pending := Some q, updates_failed := n\<rparr>"

subsection \<open>Client and write permission checks\<close>


text \<open>
  \<open>rspamd_fuzzy_check_write\<close> (lines 470-505). The second test reads
  \<open>session->key->key\<close> without a test of \<open>session->key\<close>, which is null for a
  request that was not encrypted. The key is read through the pointer of the session.
\<close>

definition rspamd_fuzzy_check_write :: "fuzzy_session \<Rightarrow> rspamd_fuzzy_storage_ctx \<Rightarrow> fault + bool" where
  "rspamd_fuzzy_check_write session ctx =
     (if read_only ctx then Inr False
      else
        (case (update_ips ctx, addr session) of
           (Some ips, Some a) \<Rightarrow>
             (case a of
                AF_UNIX p \<Rightarrow> Inr True
              | _ \<Rightarrow> if \<not> ips a then Inr False else Inr True)
         | _ \<Rightarrow>
             (case update_keys ctx of
                None \<Rightarrow> Inr False
              | Some ks \<Rightarrow>
                  (case session_key session of
                     None \<Rightarrow> Inl Null_dereference
                   | Some k \<Rightarrow>
                       (case key (keys ctx k) of
                          None \<Rightarrow> Inr False
                        | Some kp \<Rightarrow> if ks (keypair_id_base32 kp) then Inr True else Inr False)))))"






subsection \<open>Statistics\<close>

text \<open>
  \<open>rspamd_fuzzy_update_stats\<close> (lines 704-785), in its three parts: the global
  counters, the statistics of the key and the statistics of the client address. The
  counters are \<open>uint64_t\<close>. \<open>KEY_STAT_INTERVAL\<close> is 3600.0.
\<close>

definition KEY_STAT_INTERVAL :: c_double where
  "KEY_STAT_INTERVAL = Fin 3600"

definition double_of_u64 :: "64 word \<Rightarrow> c_double" where
  "double_of_u64 n = Fin (real (unat n))"

definition update_stats_global ::
  "fuzzy_global_stat \<Rightarrow> rspamd_fuzzy_epoch \<Rightarrow> bool \<Rightarrow> bool \<Rightarrow> bool \<Rightarrow> fuzzy_global_stat" where
  "update_stats_global st ep is_matched shingle delayed =
     (let st1 = st\<lparr>fuzzy_hashes_checked := (fuzzy_hashes_checked st)(ep := fuzzy_hashes_checked st ep + 1)\<rparr>;
          st2 = (if is_matched
                 then st1\<lparr>fuzzy_hashes_found := (fuzzy_hashes_found st1)(ep := fuzzy_hashes_found st1 ep + 1)\<rparr>
                 else st1);
          st3 = (if shingle
                 then st2\<lparr>fuzzy_shingles_checked :=
                            (fuzzy_shingles_checked st2)(ep := fuzzy_shingles_checked st2 ep + 1)\<rparr>
                 else st2)
      in if delayed then st3\<lparr>delayed_hashes := delayed_hashes st3 + 1\<rparr> else st3)"

definition update_stats_key ::
  "bool \<Rightarrow> fuzzy_cmd_kind \<Rightarrow> 32 word \<Rightarrow> ev_tstamp \<Rightarrow> fuzzy_key_stat \<Rightarrow> fuzzy_key_stat" where
  "update_stats_key is_matched c rep ts ks =
     (if \<not> is_matched \<and> rep \<noteq> 0 then ks\<lparr>errors := errors ks + 1\<rparr>
      else if c = FUZZY_CHECK then
        let ks1 = ks\<lparr>checked := checked ks + 1\<rparr>;
            ks2 = (if is_matched then ks1\<lparr>matched := matched ks1 + 1\<rparr> else ks1)
        in if d_eq (last_checked_time ks2) (Fin 0) then
             ks2\<lparr>last_checked_time := Fin ts, last_checked_count := checked ks2,
                 last_matched_count := matched ks2\<rparr>
           else if d_greater (Fin ts) (d_add (last_checked_time ks2) KEY_STAT_INTERVAL) then
             let nchecked = checked ks2 - last_checked_count ks2;
                 nmatched = matched ks2 - last_matched_count ks2;
                 ks3 = ks2\<lparr>checked_ctr :=
                             rspamd_set_counter_ema (checked_ctr ks2) (double_of_u64 nchecked) (Fin (1/2))\<rparr>;
                 ks4 = ks3\<lparr>checked_ctr :=
                             rspamd_set_counter_ema (checked_ctr ks3) (double_of_u64 nmatched) (Fin (1/2))\<rparr>
             in ks4\<lparr>last_checked_time := Fin ts, last_checked_count := checked ks4,
                    last_matched_count := matched ks4\<rparr>
           else ks2
      else if c = FUZZY_WRITE then ks\<lparr>added := added ks + 1\<rparr>
      else if c = FUZZY_DEL then ks\<lparr>deleted := deleted ks + 1\<rparr>
      else ks)"

definition update_stats_ip ::
  "bool \<Rightarrow> fuzzy_cmd_kind \<Rightarrow> 32 word \<Rightarrow> fuzzy_generic_stat \<Rightarrow> fuzzy_generic_stat" where
  "update_stats_ip is_matched c rep ips =
     (if \<not> is_matched \<and> rep \<noteq> 0 then ips\<lparr>errors := errors ips + 1\<rparr>
      else if c = FUZZY_CHECK then
        let ips1 = ips\<lparr>checked := checked ips + 1\<rparr>
        in if is_matched then ips1\<lparr>matched := matched ips1 + 1\<rparr> else ips1
      else if c = FUZZY_WRITE then ips\<lparr>added := added ips + 1\<rparr>
      else if c = FUZZY_DEL then ips\<lparr>deleted := deleted ips + 1\<rparr>
      else ips)"

definition rspamd_fuzzy_update_stats ::
  "rspamd_fuzzy_storage_ctx \<Rightarrow> rspamd_fuzzy_epoch \<Rightarrow> bool \<Rightarrow> bool \<Rightarrow> bool
     \<Rightarrow> fuzzy_key_stat option \<Rightarrow> fuzzy_generic_stat option \<Rightarrow> fuzzy_cmd_kind \<Rightarrow> 32 word \<Rightarrow> ev_tstamp
     \<Rightarrow> rspamd_fuzzy_storage_ctx \<times> fuzzy_key_stat option \<times> fuzzy_generic_stat option" where
  "rspamd_fuzzy_update_stats ctx ep is_matched shingle delayed key_stat ip_st c rep ts =
     (ctx\<lparr>ctx_stat := update_stats_global (ctx_stat ctx) ep is_matched shingle delayed\<rparr>,
      map_option (update_stats_key is_matched c rep ts) key_stat,
      map_option (update_stats_ip is_matched c rep) ip_st)"

subsection \<open>Replies\<close>

datatype rspamd_fuzzy_reply_flags =
  RSPAMD_FUZZY_REPLY_ENCRYPTED | RSPAMD_FUZZY_REPLY_SHINGLE | RSPAMD_FUZZY_REPLY_DELAY

text \<open>
  \<open>rspamd_fuzzy_write_reply\<close> (lines 656-702) hands the reply of the session to
  \<open>sendto\<close>: the encrypted layout for an encrypted command, and the v2 layout (with
  the timestamp) for an epoch after \<open>RSPAMD_FUZZY_EPOCH10\<close>. When the socket is not
  ready the same call is repeated from \<open>rspamd_fuzzy_reply_io\<close>; any other error is
  only logged. The trace records the reply handed to \<open>sendto\<close>.
\<close>

definition rspamd_fuzzy_write_reply ::
  "fuzzy_session \<Rightarrow> rspamd_fuzzy_storage_ctx \<Rightarrow> rspamd_fuzzy_storage_ctx" where
  "rspamd_fuzzy_write_reply session ctx =
     ctx\<lparr>effects := effects ctx @
           [Sendto (addr session) (reply session)
              (cmd_type session = CMD_ENCRYPTED_NORMAL \<or> cmd_type session = CMD_ENCRYPTED_SHINGLE)
              (epoch session \<noteq> RSPAMD_FUZZY_EPOCH10)]\<rparr>"

text \<open>
  \<open>rspamd_fuzzy_make_reply\<close> (lines 793-861). The statistics are counted on the
  result as it is handed in, before the reply is blanked for a delayed hash or for a
  forbidden flag. \<open>rspamd_fuzzy_update_stats\<close> gets the pointers \<open>&session->key->stat\<close>
  and \<open>session->ip_stat\<close>: the objects are read through the pointers and the updated
  ones are stored back under the same names. The encryption of the reply (a fresh
  nonce, the shared secret of the session) is outside the model: the reply is recorded
  before it is encrypted.
\<close>

definition blank_reply :: "rspamd_fuzzy_reply \<Rightarrow> rspamd_fuzzy_reply" where
  "blank_reply r = r\<lparr>rep_ts := 0, rep_prob := Fin 0, rep_value := 0, rep_flag := 0\<rparr>"

definition store_key_stat ::
  "key_id option \<Rightarrow> fuzzy_key_stat option \<Rightarrow> rspamd_fuzzy_storage_ctx \<Rightarrow> rspamd_fuzzy_storage_ctx" where
  "store_key_stat kp ks ctx =
     (case (kp, ks) of
        (Some k, Some st) \<Rightarrow> ctx\<lparr>keys := (keys ctx)(k := (keys ctx k)\<lparr>stat := st\<rparr>)\<rparr>
      | _ \<Rightarrow> ctx)"

definition store_ip_stat ::
  "stat_ptr option \<Rightarrow> fuzzy_generic_stat option \<Rightarrow> rspamd_fuzzy_storage_ctx \<Rightarrow> rspamd_fuzzy_storage_ctx" where
  "store_ip_stat p ips ctx =
     (case (p, ips) of
        (Some q, Some st) \<Rightarrow> ctx\<lparr>ip_stats := (ip_stats ctx)(q := st)\<rparr>
      | _ \<Rightarrow> ctx)"

definition key_forbids :: "rspamd_fuzzy_storage_ctx \<Rightarrow> fuzzy_session \<Rightarrow> 32 word \<Rightarrow> bool" where
  "key_forbids ctx session f =
     (case session_key session of
        None \<Rightarrow> False
      | Some k \<Rightarrow> is_forbidden (keys ctx k) f)"

definition rspamd_fuzzy_make_reply ::
  "rspamd_fuzzy_cmd option \<Rightarrow> rspamd_fuzzy_reply \<Rightarrow> fuzzy_session \<Rightarrow> rspamd_fuzzy_reply_flags set
     \<Rightarrow> rspamd_fuzzy_storage_ctx \<Rightarrow> fuzzy_session \<times> rspamd_fuzzy_storage_ctx" where
  "rspamd_fuzzy_make_reply c result session flags ctx =
     (case c of
        None \<Rightarrow> (session, rspamd_fuzzy_write_reply session ctx)
      | Some cm \<Rightarrow>
          let result1 = result\<lparr>rep_tag := tag cm\<rparr>;
              session1 = session\<lparr>reply := result1\<rparr>;
              st = rspamd_fuzzy_update_stats ctx (epoch session1)
                     (d_greater (rep_prob result1) (Fin (1/2)))
                     (RSPAMD_FUZZY_REPLY_SHINGLE \<in> flags)
                     (RSPAMD_FUZZY_REPLY_DELAY \<in> flags)
                     (map_option (\<lambda>k. stat (keys ctx k)) (session_key session1))
                     (map_option (ip_stats ctx) (ip_stat session1))
                     (cmd cm) (rep_value result1) (timestamp session1);
              ctx1 = store_ip_stat (ip_stat session1) (snd (snd st))
                       (store_key_stat (session_key session1) (fst (snd st)) (fst st));
              session2 = (if RSPAMD_FUZZY_REPLY_DELAY \<in> flags
                          then session1\<lparr>reply := (reply session1)\<lparr>rep_ts := 0, rep_prob := Fin 0,
                                                                  rep_value := 0\<rparr>\<rparr>
                          else session1);
              session3 = (if RSPAMD_FUZZY_REPLY_ENCRYPTED \<in> flags
                             \<and> d_greater (rep_prob (reply session2)) (Fin 0)
                             \<and> key_forbids ctx1 session2 (rep_flag (reply session2))
                          then session2\<lparr>reply := blank_reply (reply session2)\<rparr>
                          else session2)
          in (session3, rspamd_fuzzy_write_reply session3 ctx1))"

subsection \<open>Command processing\<close>

text \<open>The Lua pre-handler (lines 1136-1190): the artificial reply, if it gives one.\<close>

definition call_pre_handler ::
  "fuzzy_session \<Rightarrow> bool \<Rightarrow> rspamd_fuzzy_storage_ctx \<Rightarrow> (32 word \<times> c_double) option" where
  "call_pre_handler session shingle ctx =
     (case lua_pre_handler ctx of
        None \<Rightarrow> None
      | Some h \<Rightarrow>
          (case h (addr session) (cmd (cmd_basic session)) (digest (cmd_basic session)) shingle
                  (extensions session) of
             Lua_error \<Rightarrow> None
           | Lua_return vs \<Rightarrow>
               if lua_toboolean vs 0 then
                 Some (word_of_int (lua_tointeger vs 1),
                       if lua_isnumber vs 2 then lua_tonumber vs 2 else Fin 0)
               else None))"

text \<open>
  The statistics of the client address under the key of the session (lines 1208-1221):
  the pointer that the table \<open>last_ips\<close> of the key holds for the address, or a pointer
  to newly allocated statistics, which is inserted into the table.
\<close>

definition set_last_ips ::
  "key_id \<Rightarrow> (rspamd_inet_addr_t, stat_ptr) rspamd_lru_hash_t \<Rightarrow> rspamd_fuzzy_storage_ctx
     \<Rightarrow> rspamd_fuzzy_storage_ctx" where
  "set_last_ips k h ctx =
     ctx\<lparr>keys := (keys ctx)(k := (keys ctx k)\<lparr>stat := (stat (keys ctx k))\<lparr>last_ips := h\<rparr>\<rparr>)\<rparr>"

definition attach_ip_stat ::
  "fuzzy_session \<Rightarrow> rspamd_fuzzy_storage_ctx \<Rightarrow> fuzzy_session \<times> rspamd_fuzzy_storage_ctx" where
  "attach_ip_stat session ctx =
     (case (session_key session, addr session) of
        (Some k, Some a) \<Rightarrow>
          let found = rspamd_lru_hash_lookup (last_ips (stat (keys ctx k))) a (- 1)
          in (case fst found of
                Some p \<Rightarrow> (session\<lparr>ip_stat := Some p\<rparr>, set_last_ips k (snd found) ctx)
              | None \<Rightarrow>
                  let p = ip_stats_allocated ctx;
                      ctx1 = ctx\<lparr>ip_stats := (ip_stats ctx)(p := new_fuzzy_generic_stat),
                                 ip_stats_allocated := p + 1\<rparr>
                  in (session\<lparr>ip_stat := Some p\<rparr>,
                      set_last_ips k (rspamd_lru_hash_insert (snd found) a p (- 1) 0) ctx1))
      | _ \<Rightarrow> (session, ctx))"

text \<open>
  Queueing an update (lines 1271-1298): onto the pending queue on worker 0 (or without a
  peer pipe), else to the peer pipe. A write to the pipe that would block is repeated by
  \<open>fuzzy_peer_send_io\<close>; the trace records the command handed to the pipe.
\<close>

definition enqueue_update :: "fuzzy_peer_cmd \<Rightarrow> rspamd_fuzzy_storage_ctx \<Rightarrow> fault + rspamd_fuzzy_storage_ctx" where
  "enqueue_update up_cmd ctx =
     (if worker_index ctx = 0 \<or> peer_fd ctx = - 1 then
        (case updates_pending ctx of
           None \<Rightarrow> Inl Null_dereference
         | Some q \<Rightarrow> Inr (ctx\<lparr>updates_pending := Some (q @ [up_cmd])\<rparr>))
      else Inr (ctx\<lparr>effects := effects ctx @ [Peer_send up_cmd]\<rparr>))"

text \<open>
  Modelled from the spec: \<open>rspamd_encode_hex_buf\<close>, which is not among the sources
  (the skip list is matched "by hex digest").
\<close>

definition hex_digit :: "nat \<Rightarrow> char" where
  "hex_digit n = ''0123456789abcdef'' ! (n mod 16)"

definition rspamd_encode_hex_buf :: "8 word list \<Rightarrow> string" where
  "rspamd_encode_hex_buf bs = concat (map (\<lambda>b. [hex_digit (unat b div 16), hex_digit (unat b)]) bs)"

text \<open>
  \<open>rspamd_fuzzy_process_command\<close> (lines 1093-1310). The command types are the four
  of \<open>fuzzy_cmd_type\<close>, so the \<open>default\<close> case of the switch and the test
  \<open>cmd == nullptr || up_len == 0\<close> never apply. A CHECK that may continue is handed to
  the backend with the session, which is retained; the backend answers later through
  \<open>rspamd_fuzzy_check_callback\<close>.
\<close>

definition rspamd_fuzzy_process_command ::
  "fuzzy_session \<Rightarrow> rspamd_fuzzy_storage_ctx \<Rightarrow> fault + fuzzy_session \<times> rspamd_fuzzy_storage_ctx" where
  "rspamd_fuzzy_process_command session ctx =
     (let c = cmd_basic session;
          shingle = (cmd_type session = CMD_SHINGLE \<or> cmd_type session = CMD_ENCRYPTED_SHINGLE);
          encrypted = (cmd_type session = CMD_ENCRYPTED_NORMAL \<or> cmd_type session = CMD_ENCRYPTED_SHINGLE);
          send_flags = (if shingle then {RSPAMD_FUZZY_REPLY_SHINGLE} else {})
                         \<union> (if encrypted then {RSPAMD_FUZZY_REPLY_ENCRYPTED} else {});
          result = \<lparr>rep_value = 0, rep_prob = Fin 0, rep_flag = flag c, rep_tag = tag c, rep_ts = 0,
                    rep_digest = digest c\<rparr>
      in case call_pre_handler session shingle ctx of
           Some (v, p) \<Rightarrow>
             Inr (rspamd_fuzzy_make_reply (Some c) (result\<lparr>rep_value := v, rep_prob := p\<rparr>)
                    session send_flags ctx)
         | None \<Rightarrow>
             if encrypted_only ctx \<and> \<not> encrypted then
               Inr (rspamd_fuzzy_make_reply (Some c) (result\<lparr>rep_value := 403, rep_prob := Fin 0\<rparr>)
                      session send_flags ctx)
             else
               let session1 = fst (attach_ip_stat session ctx);
                   ctx0 = snd (attach_ip_stat session ctx)
               in if cmd c = FUZZY_CHECK then
                    (case (case ratelimit_buckets ctx0 of
                             None \<Rightarrow> Inr (True, ctx0)
                           | Some buckets \<Rightarrow>
                               if ratelimit_log_only ctx0 then
                                 (case rspamd_fuzzy_check_ratelimit session1 ctx0 of
                                    Inl f \<Rightarrow> Inl f
                                  | Inr (r, ctx1) \<Rightarrow> Inr (True, ctx1))
                               else rspamd_fuzzy_check_ratelimit session1 ctx0) of
                       Inl f \<Rightarrow> Inl f
                     | Inr (can_continue, ctx1) \<Rightarrow>
                         if can_continue then
                           Inr (session1, ctx1\<lparr>effects := effects ctx1 @ [Backend_check session1]\<rparr>)
                         else
                           Inr (rspamd_fuzzy_make_reply (Some c)
                                  (result\<lparr>rep_value := 403, rep_prob := Fin 0, rep_flag := 0\<rparr>)
                                  session1 send_flags ctx1))
                  else if cmd c = FUZZY_STAT then
                    Inr (rspamd_fuzzy_make_reply (Some c)
                           (result\<lparr>rep_prob := Fin 1, rep_value := 0,
                                   rep_flag := ucast (fuzzy_hashes (ctx_stat ctx0))\<rparr>)
                           session1 send_flags ctx0)
                  else
                    (case rspamd_fuzzy_check_write session1 ctx0 of
                       Inl f \<Rightarrow> Inl f
                     | Inr True \<Rightarrow>
                         if cmd c = FUZZY_WRITE
                            \<and> hash_map_matches (skip_hashes ctx0) (rspamd_encode_hex_buf (digest c))
                         then
                           Inr (rspamd_fuzzy_make_reply (Some c)
                                  (result\<lparr>rep_value := 401, rep_prob := Fin 0\<rparr>)
                                  session1 send_flags ctx0)
                         else
                           (case enqueue_update
                                   \<lparr>is_shingle = shingle, peer_normal = c,
                                    peer_sgl = (if shingle then Some (cmd_sgl session1) else None)\<rparr> ctx0 of
                              Inl f \<Rightarrow> Inl f
                            | Inr ctx1 \<Rightarrow>
                                Inr (rspamd_fuzzy_make_reply (Some c)
                                       (result\<lparr>rep_value := 0, rep_prob := Fin 1\<rparr>)
                                       session1 send_flags ctx1))
                     | Inr False \<Rightarrow>
                         Inr (rspamd_fuzzy_make_reply (Some c)
                                (result\<lparr>rep_value := 403, rep_prob := Fin 0\<rparr>)
                                session1 send_flags ctx0)))"

subsection \<open>The callback of the backend check\<close>

text \<open>
  What the callback takes from outside the worker: the calendar time
  (\<open>rspamd_get_calendar_ticks\<close>) and the random jitter that \<open>rspamd_time_jitter\<close>
  adds to the delay, given as the function it computes for this call.
\<close>

record check_env =
  calendar_ticks :: real
  time_jitter :: "c_double \<Rightarrow> c_double \<Rightarrow> c_double"

text \<open>The Lua post-handler (lines 953-1025): the artificial result, if it gives one.\<close>

definition call_post_handler ::
  "rspamd_fuzzy_reply \<Rightarrow> fuzzy_session \<Rightarrow> bool \<Rightarrow> rspamd_fuzzy_storage_ctx \<Rightarrow> rspamd_fuzzy_reply option" where
  "call_post_handler result session shingle ctx =
     (case lua_post_handler ctx of
        None \<Rightarrow> None
      | Some h \<Rightarrow>
          (case h (addr session) (cmd (cmd_basic session)) (rep_digest result) shingle
                  (rep_value result) (rep_prob result) (rep_flag result) (rep_ts result)
                  (extensions session) of
             Lua_error \<Rightarrow> None
           | Lua_return vs \<Rightarrow>
               if lua_toboolean vs 0 then
                 Some (result\<lparr>rep_value := word_of_int (lua_tointeger vs 1),
                              rep_prob := (if lua_isnumber vs 2 then lua_tonumber vs 2 else Fin 0),
                              rep_flag := (if lua_isnumber vs 3 then word_of_int (lua_tointeger vs 3)
                                           else rep_flag result)\<rparr>)
               else None))"

text \<open>The test for a hash that is too fresh (lines 1027-1037).\<close>

definition hash_is_delayed ::
  "rspamd_fuzzy_reply \<Rightarrow> fuzzy_session \<Rightarrow> check_env \<Rightarrow> rspamd_fuzzy_storage_ctx \<Rightarrow> bool" where
  "hash_is_delayed result session env ctx =
     (\<not> isnan (delay ctx)
      \<and> \<not> (case addr session of None \<Rightarrow> False | Some a \<Rightarrow> radix_map_matches (delay_whitelist ctx) a)
      \<and> d_less (d_sub (Fin (calendar_ticks env)) (double_of_u64 (rep_ts result)))
           (time_jitter env (delay ctx) (d_mul (delay ctx) (Fin (1/2)))))"

text \<open>
  The refresh of a hash found with strong confidence (lines 1039-1086): a REFRESH
  command onto the pending queue on worker 0, else to the peer pipe. The fields that
  the source does not set are 0 (\<open>memset\<close> on worker 0; the request for the peer
  is not initialised, and the model takes 0 there too).
\<close>

definition refresh_cmd :: "rspamd_fuzzy_reply \<Rightarrow> fuzzy_session \<Rightarrow> bool \<Rightarrow> fuzzy_peer_cmd" where
  "refresh_cmd result session shingle =
     \<lparr>is_shingle = shingle,
      peer_normal = \<lparr>version = 0, cmd = FUZZY_REFRESH,
                     shingles_count = shingles_count (cmd_basic session),
                     flag = rep_flag result, tag = 0, digest = rep_digest result\<rparr>,
      peer_sgl = (if shingle then Some (cmd_sgl session) else None)\<rparr>"

definition enqueue_refresh ::
  "fuzzy_peer_cmd \<Rightarrow> rspamd_fuzzy_storage_ctx \<Rightarrow> fault + rspamd_fuzzy_storage_ctx" where
  "enqueue_refresh up_cmd ctx =
     (if worker_index ctx = 0 then
        (case updates_pending ctx of
           None \<Rightarrow> Inl Null_dereference
         | Some q \<Rightarrow> Inr (ctx\<lparr>updates_pending := Some (q @ [up_cmd])\<rparr>))
      else Inr (ctx\<lparr>effects := effects ctx @ [Peer_send up_cmd]\<rparr>))"

text \<open>
  \<open>rspamd_fuzzy_check_callback\<close> (lines 921-1091), which the backend calls with the
  result of a check and the session that \<open>rspamd_fuzzy_process_command\<close> handed to it.
  Every path ends in \<open>rspamd_fuzzy_make_reply\<close>.
\<close>

definition rspamd_fuzzy_check_callback ::
  "rspamd_fuzzy_reply \<Rightarrow> fuzzy_session \<Rightarrow> check_env \<Rightarrow> rspamd_fuzzy_storage_ctx
     \<Rightarrow> fault + fuzzy_session \<times> rspamd_fuzzy_storage_ctx" where
  "rspamd_fuzzy_check_callback result session env ctx =
     (let c = cmd_basic session;
          shingle = (cmd_type session = CMD_SHINGLE \<or> cmd_type session = CMD_ENCRYPTED_SHINGLE);
          encrypted = (cmd_type session = CMD_ENCRYPTED_NORMAL \<or> cmd_type session = CMD_ENCRYPTED_SHINGLE);
          send_flags = (if shingle then {RSPAMD_FUZZY_REPLY_SHINGLE} else {})
                         \<union> (if encrypted then {RSPAMD_FUZZY_REPLY_ENCRYPTED} else {})
      in case call_post_handler result session shingle ctx of
           Some artificial \<Rightarrow> Inr (rspamd_fuzzy_make_reply (Some c) artificial session send_flags ctx)
         | None \<Rightarrow>
             let send_flags1 = (if hash_is_delayed result session env ctx
                                then send_flags \<union> {RSPAMD_FUZZY_REPLY_DELAY} else send_flags)
             in if d_greater (rep_prob result) (Fin (9/10)) \<and> \<not> read_only ctx then
                  (case enqueue_refresh (refresh_cmd result session shingle) ctx of
                     Inl f \<Rightarrow> Inl f
                   | Inr ctx1 \<Rightarrow> Inr (rspamd_fuzzy_make_reply (Some c) result session send_flags1 ctx1))
                else Inr (rspamd_fuzzy_make_reply (Some c) result session send_flags1 ctx))"

subsection \<open>Sequences of requests\<close>

text \<open>
  The receive loop hands one request after the other to
  \<open>rspamd_fuzzy_process_command\<close>, each on the context the previous one left.
\<close>

fun rspamd_fuzzy_process_commands ::
  "fuzzy_session list \<Rightarrow> rspamd_fuzzy_storage_ctx \<Rightarrow> fault + rspamd_fuzzy_storage_ctx" where
  "rspamd_fuzzy_process_commands [] ctx = Inr ctx"
| "rspamd_fuzzy_process_commands (s # ss) ctx =
     (case rspamd_fuzzy_process_command s ctx of
        Inl f \<Rightarrow> Inl f
      | Inr (s1, ctx1) \<Rightarrow> rspamd_fuzzy_process_commands ss ctx1)"

text \<open>What such a run shows: the trace of effects and the bucket levels.\<close>

definition process_run ::
  "fuzzy_session list \<Rightarrow> rspamd_fuzzy_storage_ctx \<Rightarrow> fault + effect list \<times> c_double list" where
  "process_run ss ctx =
     (case rspamd_fuzzy_process_commands ss ctx of
        Inl f \<Rightarrow> Inl f
      | Inr ctx1 \<Rightarrow> Inr (effects ctx1, bucket_levels ctx1))"

subsection \<open>Inputs for the write permission check\<close>




text \<open>
  A worker that allows updates from 10.0.0.1 and from the key with the id "kid", which
  its table holds under the name \<open>client_key_id\<close>; an encrypted WRITE of a client that
  holds that key; and a WRITE that is not encrypted, on a worker that has the key map
  only.
\<close>

definition client_key_id :: key_id where
  "client_key_id = [1, 2, 3, 4, 5, 6, 7, 8]"

definition client_key :: fuzzy_key where
  "client_key = fuzzy_parse_keypair \<lparr>keypair_id_base32 = ''kid''\<rparr> []"

definition write_ctx :: rspamd_fuzzy_storage_ctx where
  "write_ctx =
     (start_fuzzy 0 init_fuzzy)
       \<lparr>update_ips := Some (\<lambda>a. a = AF_INET 0x0A000001),
        update_keys := Some (\<lambda>k. k = ''kid''),
        keys := (keys init_fuzzy)(client_key_id := client_key)\<rparr>"

definition write_session :: "rspamd_inet_addr_t \<Rightarrow> fuzzy_session" where
  "write_session a =
     \<lparr>addr = Some a,
      cmd_basic = \<lparr>version = 4, cmd = FUZZY_WRITE, shingles_count = 0, flag = 7, tag = 42,
                   digest = replicate 64 1\<rparr>,
      cmd_sgl = [],
      reply = \<lparr>rep_value = 0, rep_prob = Fin 0, rep_flag = 0, rep_tag = 0, rep_ts = 0,
               rep_digest = []\<rparr>,
      epoch = RSPAMD_FUZZY_EPOCH11, cmd_type = CMD_ENCRYPTED_NORMAL, timestamp = 100,
      ip_stat = None, session_key = Some client_key_id, extensions = []\<rparr>"



subsection \<open>Observations on the statistics\<close>

text \<open>
  The counters that a request can move: the global found counter of an epoch, the
  matched counter of the key of a session and that of its client address, both read
  through the pointers of the session.
\<close>

definition found_count :: "rspamd_fuzzy_storage_ctx \<Rightarrow> rspamd_fuzzy_epoch \<Rightarrow> 64 word" where
  "found_count ctx ep = fuzzy_hashes_found (ctx_stat ctx) ep"

definition key_stat_of :: "rspamd_fuzzy_storage_ctx \<Rightarrow> fuzzy_session \<Rightarrow> fuzzy_key_stat option" where
  "key_stat_of ctx session = map_option (\<lambda>k. stat (keys ctx k)) (session_key session)"

definition ip_stat_of :: "rspamd_fuzzy_storage_ctx \<Rightarrow> fuzzy_session \<Rightarrow> fuzzy_generic_stat option" where
  "ip_stat_of ctx session = map_option (ip_stats ctx) (ip_stat session)"

definition key_matched :: "rspamd_fuzzy_storage_ctx \<Rightarrow> fuzzy_session \<Rightarrow> 64 word option" where
  "key_matched ctx session = map_option matched (key_stat_of ctx session)"

definition ip_matched :: "rspamd_fuzzy_storage_ctx \<Rightarrow> fuzzy_session \<Rightarrow> 64 word option" where
  "ip_matched ctx session = map_option matched (ip_stat_of ctx session)"



text \<open>
  What a request shows when it is completed: the effects that it has added to the
  trace, the found counter of its epoch, and the matched counters of its key and of its
  client address.
\<close>

definition trace_after :: "rspamd_fuzzy_storage_ctx \<Rightarrow> rspamd_fuzzy_storage_ctx \<Rightarrow> effect list" where
  "trace_after ctx ctx1 = drop (length (effects ctx)) (effects ctx1)"

definition request_summary ::
  "rspamd_fuzzy_storage_ctx \<Rightarrow> fault + fuzzy_session \<times> rspamd_fuzzy_storage_ctx
     \<Rightarrow> fault + effect list \<times> 64 word \<times> 64 word option \<times> 64 word option" where
  "request_summary ctx r =
     (case r of
        Inl f \<Rightarrow> Inl f
      | Inr (s1, ctx1) \<Rightarrow>
          Inr (trace_after ctx ctx1, found_count ctx1 (epoch s1), key_matched ctx1 s1,
               ip_matched ctx1 s1))"

text \<open>
  A CHECK that the backend answers at once: the request is processed and, on the
  context that it has left, the callback runs on the session that was handed to the
  backend, with the result of the backend.
\<close>

definition check_then_callback ::
  "fuzzy_session \<Rightarrow> rspamd_fuzzy_reply \<Rightarrow> check_env \<Rightarrow> rspamd_fuzzy_storage_ctx
     \<Rightarrow> fault + fuzzy_session \<times> rspamd_fuzzy_storage_ctx" where
  "check_then_callback s result env ctx =
     (case rspamd_fuzzy_process_command s ctx of
        Inl f \<Rightarrow> Inl f
      | Inr (s1, ctx1) \<Rightarrow> rspamd_fuzzy_check_callback result s1 env ctx1)"

text \<open>
  The statistics of a key after its first four CHECKs, at the times 1000 (matched),
  1001, 1002 and 1003 (not matched), each answered with value 0.
\<close>

definition hour_old_key_stat :: fuzzy_key_stat where
  "hour_old_key_stat =
     update_stats_key False FUZZY_CHECK 0 1003
       (update_stats_key False FUZZY_CHECK 0 1002
          (update_stats_key False FUZZY_CHECK 0 1001
             (update_stats_key True FUZZY_CHECK 0 1000 (stat client_key))))"

text \<open>
  An encrypted CHECK of the client that holds \<open>client_key\<close>, and the result of the
  backend for a hash that it has found with probability 1, stored at the time 990. With
  a delay of 3600 seconds the hash is too fresh at the calendar time 1000.
\<close>

definition key_check_session :: "rspamd_inet_addr_t \<Rightarrow> fuzzy_session" where
  "key_check_session a =
     (write_session a)\<lparr>cmd_basic := (cmd_basic (write_session a))\<lparr>cmd := FUZZY_CHECK\<rparr>\<rparr>"

definition found_result :: rspamd_fuzzy_reply where
  "found_result =
     \<lparr>rep_value = 5, rep_prob = Fin 1, rep_flag = 7, rep_tag = 0, rep_ts = 990,
      rep_digest = replicate 64 1\<rparr>"

definition delaying_ctx :: rspamd_fuzzy_storage_ctx where
  "delaying_ctx = write_ctx\<lparr>delay := Fin 3600\<rparr>"

definition no_jitter :: check_env where
  "no_jitter = \<lparr>calendar_ticks = 1000, time_jitter = (\<lambda>d j. d)\<rparr>"

subsection \<open>Inputs for the rate-limit scenario\<close>

text \<open>
  The table after two requests of the client 1.2.3.4 with rate 0 and burst 2: one
  bucket at level 2.
\<close>

definition full_elt :: "(rspamd_inet_addr_t, rspamd_leaky_bucket_elt) rspamd_lru_element_t" where
  "full_elt =
     \<lparr>lru_key = AF_INET 0x01020304,
      lru_data = \<lparr>elt_addr = Some (AF_INET 0x01020304), elt_last = Fin 100, elt_cur = Fin 2\<rparr>,
      creation_time = 100, lru_ttl = 3600\<rparr>"

definition full_ctx :: rspamd_fuzzy_storage_ctx where
  "full_ctx = (ratelimit_ctx 0 2)\<lparr>ratelimit_buckets := Some \<lparr>maxsize = 2000, nodes = [full_elt]\<rparr>\<rparr>"

text \<open>The CHECK command of \<open>check_session\<close>, and the reply that refuses it.\<close>

definition check_cmd :: rspamd_fuzzy_cmd where
  "check_cmd = \<lparr>version = 4, cmd = FUZZY_CHECK, shingles_count = 0, flag = 0, tag = 42,
                 digest = replicate 64 1\<rparr>"

definition check_refused :: effect where
  "check_refused =
     Sendto (Some (AF_INET 0x01020304))
       \<lparr>rep_value = 403, rep_prob = Fin 0, rep_flag = 0, rep_tag = 42, rep_ts = 0,
        rep_digest = replicate 64 1\<rparr> False True"

subsection \<open>The receive loop\<close>








subsection \<open>Observations on the receive loop\<close>



















section \<open>Properties\<close>

subsection \<open>The LRU hash\<close>

lemma lru_lookup_nodes: "set (nodes (snd (rspamd_lru_hash_lookup h k now))) \<subseteq> set (nodes h)"
  by (auto simp: rspamd_lru_hash_lookup_def lru_others_def lru_peek_def
      split: option.splits dest: find_Some_iff[THEN iffD1])

lemma lru_lookup_found:
  "fst (rspamd_lru_hash_lookup h k now) = Some v \<Longrightarrow> \<exists>e \<in> set (nodes h). lru_data e = v"
  by (auto simp: rspamd_lru_hash_lookup_def lru_peek_def find_Some_iff split: option.splits if_splits)

lemma lru_store_nodes:
  "e \<in> set (nodes (lru_store h k v)) \<Longrightarrow> e \<in> set (nodes h) \<or> lru_data e = v"
  by (auto simp: lru_store_def)

lemma lru_insert_nodes:
  "e \<in> set (nodes (rspamd_lru_hash_insert h k v now ttl)) \<Longrightarrow> e \<in> set (nodes h) \<or> lru_data e = v"
  by (auto simp: rspamd_lru_hash_insert_def lru_others_def dest: in_set_takeD)

lemma find_key_filter_other:
  "k' \<noteq> k \<Longrightarrow>
     find (\<lambda>e. lru_key e = k) (filter (\<lambda>e. lru_key e \<noteq> k') xs) = find (\<lambda>e. lru_key e = k) xs"
  by (induction xs) auto

lemma find_take_cases: "find P (take n xs) = None \<or> find P (take n xs) = find P xs"
proof (induction xs arbitrary: n)
  case Nil
  then show ?case by simp
next
  case (Cons x xs)
  then show ?case by (cases n) auto
qed

lemma find_map_update_other:
  "(\<And>x. P (f x) = P x) \<Longrightarrow> (\<And>x. P x \<Longrightarrow> f x = x) \<Longrightarrow> find P (map f xs) = find P xs"
  by (induction xs) auto

lemma lru_peek_key: "lru_peek h k = Some e \<Longrightarrow> lru_key e = k"
  by (auto simp: lru_peek_def find_Some_iff)

lemma lru_peek_lookup_other:
  "k' \<noteq> k \<Longrightarrow> lru_peek (snd (rspamd_lru_hash_lookup h k' now)) k = lru_peek h k"
  by (auto simp: rspamd_lru_hash_lookup_def lru_peek_def lru_others_def find_key_filter_other
      find_Some_iff split: option.splits)

lemma lru_peek_store_other:
  "k' \<noteq> k \<Longrightarrow> lru_peek (lru_store h k' v) k = lru_peek h k"
  unfolding lru_peek_def lru_store_def
  by (simp, rule find_map_update_other) auto

lemma lru_peek_insert_other:
  "k' \<noteq> k \<Longrightarrow> lru_peek (rspamd_lru_hash_insert h k' v now ttl) k = None
     \<or> lru_peek (rspamd_lru_hash_insert h k' v now ttl) k = lru_peek h k"
  using find_take_cases[of "\<lambda>e. lru_key e = k" "maxsize h - 1" "lru_others h k'"]
  by (auto simp: rspamd_lru_hash_insert_def lru_peek_def lru_others_def find_key_filter_other)

lemma lru_lookup_hit:
  assumes "lru_peek h k = Some e" and "\<not> lru_expired e now"
  shows "rspamd_lru_hash_lookup h k now = (Some (lru_data e), h\<lparr>nodes := e # lru_others h k\<rparr>)"
    and "lru_peek (snd (rspamd_lru_hash_lookup h k now)) k = Some e"
  using assms lru_peek_key[OF assms(1)]
  by (simp_all add: rspamd_lru_hash_lookup_def lru_peek_def)

subsection \<open>The rate limiter\<close>

lemma check_ratelimit_total:
  "ratelimit_buckets ctx = Some h \<Longrightarrow> \<exists>r ctx1. rspamd_fuzzy_check_ratelimit s ctx = Inr (r, ctx1)"
  by (auto simp: rspamd_fuzzy_check_ratelimit_def Let_def split: option.splits)

lemma leaky_bucket_step_in_bounds:
  assumes "leaky_bucket_burst ctx = Fin b" and "level_in_bounds b (elt_cur elt)"
  shows "level_in_bounds b (elt_cur (leaky_bucket_check ctx (leaky_bucket_update ctx ts elt)))"
proof (cases "elt_cur elt")
  case NaN
  then show ?thesis using assms
    by (cases "elt_last elt"; cases "leaky_bucket_rate ctx")
       (simp_all add: leaky_bucket_check_def leaky_bucket_update_def level_in_bounds_def Let_def)
next
  case (Fin c)
  then show ?thesis using assms
    by (cases "elt_last elt"; cases "leaky_bucket_rate ctx")
       (auto simp: leaky_bucket_check_def leaky_bucket_update_def level_in_bounds_def Let_def)
qed

lemma check_ratelimit_in_bounds:
  assumes "leaky_bucket_burst ctx = Fin b" and "buckets_in_bounds b ctx"
    and "rspamd_fuzzy_check_ratelimit s ctx = Inr (r, ctx1)"
  shows "leaky_bucket_burst ctx1 = Fin b \<and> buckets_in_bounds b ctx1"
proof -
  from assms(2) obtain h where h: "ratelimit_buckets ctx = Some h"
    and inv: "\<forall>e \<in> set (nodes h). level_in_bounds b (elt_cur (lru_data e))"
    by (auto simp: buckets_in_bounds_def list_all_iff split: option.splits)
  show ?thesis
  proof (cases "addr s")
    case None
    with assms show ?thesis by (simp add: rspamd_fuzzy_check_ratelimit_def)
  next
    case (Some a)
    let ?k = "ratelimit_masked ctx a"
    let ?f = "rspamd_lru_hash_lookup h ?k (time_t_of (timestamp s))"
    have sub: "\<forall>e \<in> set (nodes (snd ?f)). level_in_bounds b (elt_cur (lru_data e))"
      using inv lru_lookup_nodes[of h ?k "time_t_of (timestamp s)"] by blast
    show ?thesis
    proof (cases "radix_map_matches (ratelimit_whitelist ctx) a")
      case True
      with assms Some show ?thesis by (simp add: rspamd_fuzzy_check_ratelimit_def)
    next
      case False
      show ?thesis
      proof (cases "fst ?f")
        case None
        with False Some h assms(3)
        have c1: "ctx1 = ctx\<lparr>ratelimit_buckets :=
              Some (rspamd_lru_hash_insert (snd ?f) ?k
                      \<lparr>elt_addr = Some ?k, elt_last = Fin (timestamp s), elt_cur = Fin 1\<rparr>
                      (time_t_of (timestamp s)) (uint (leaky_bucket_ttl ctx)))\<rparr>"
          by (simp add: rspamd_fuzzy_check_ratelimit_def Let_def)
        have "level_in_bounds b (Fin 1)" by (simp add: level_in_bounds_def)
        with sub show ?thesis unfolding c1 buckets_in_bounds_def
          using assms(1) by (auto simp: list_all_iff dest!: lru_insert_nodes)
      next
        case (Some elt)
        then obtain e0 where e0: "e0 \<in> set (nodes h)" "lru_data e0 = elt"
          using lru_lookup_found by fastforce
        with inv have eltok: "level_in_bounds b (elt_cur elt)" by auto
        show ?thesis
        proof (cases "isnan (elt_cur elt)")
          case True
          with False Some \<open>addr s = Some a\<close> h assms(3)
          have c1: "ctx1 = rspamd_fuzzy_maybe_call_blacklisted
                             (ctx\<lparr>ratelimit_buckets := Some (snd ?f)\<rparr>) a ''ratelimit''"
            by (simp add: rspamd_fuzzy_check_ratelimit_def Let_def)
          show ?thesis unfolding c1 buckets_in_bounds_def rspamd_fuzzy_maybe_call_blacklisted_def
            using sub assms(1) by (simp add: list_all_iff)
        next
          case nn: False
          with False Some \<open>addr s = Some a\<close> h assms(3)
          have c1: "ctx1 = ctx\<lparr>ratelimit_buckets :=
                Some (lru_store (snd ?f) ?k
                        (leaky_bucket_check ctx (leaky_bucket_update ctx (timestamp s) elt)))\<rparr>"
            by (simp add: rspamd_fuzzy_check_ratelimit_def Let_def)
          show ?thesis unfolding c1 buckets_in_bounds_def
            using sub assms(1) leaky_bucket_step_in_bounds[OF assms(1) eltok, of "timestamp s"]
            by (auto simp: list_all_iff dest!: lru_store_nodes)
        qed
      qed
    qed
  qed
qed

lemmas ratelimit_scenario_defs =
  ratelimit_run_def ratelimit_ctx_def
  start_fuzzy_def init_fuzzy_def check_session_def
  rspamd_fuzzy_check_ratelimit_def rspamd_fuzzy_maybe_call_blacklisted_def ratelimit_masked_def
  radix_map_matches_def keep_high_bits_def time_t_of_def
  rspamd_lru_hash_lookup_def rspamd_lru_hash_insert_def lru_store_def lru_peek_def
  lru_others_def lru_expired_def leaky_bucket_update_def leaky_bucket_check_def
  bucket_levels_def Let_def

text \<open>
  C9, as the specification states it: every bucket level lies between 0 and the burst,
  or is NaN. The code breaks the upper bound. With rate 0.5 and burst 2, requests of one
  client at times 100, 100 and 101 are all allowed and leave the level at 2.5: the third
  request finds the level leaked to 1.5, which is below the burst, and increments it.
\<close>

theorem bucket_level_exceeds_burst:
  "ratelimit_run [check_session (AF_INET 0x01020304) 100, check_session (AF_INET 0x01020304) 100,
                  check_session (AF_INET 0x01020304) 101] (ratelimit_ctx (1/2) 2)
     = Inr ([True, True, True], [Fin (5/2)], [])
   \<and> \<not> level_within_burst 2 (Fin (5/2))"
  by (simp add: ratelimit_scenario_defs level_within_burst_def)

text \<open>
  C9, amended: when the burst is a number \<open>b\<close> (the bucket table exists only then),
  every sequence of rate-limiter calls on a table whose levels are NaN or within
  \<open>0 \<le> level \<le> max 1 (b + 1)\<close> returns without a fault and leaves every level NaN or
  within the same bounds. The empty table of a fresh worker is within the bounds.
\<close>

theorem ratelimit_levels_bounded:
  assumes "leaky_bucket_burst ctx = Fin b" and "buckets_in_bounds b ctx"
  shows "\<exists>rs ctx1. rspamd_fuzzy_check_ratelimit_all ss ctx = Inr (rs, ctx1)
           \<and> buckets_in_bounds b ctx1"
  using assms
proof (induction ss arbitrary: ctx)
  case Nil
  then show ?case by simp
next
  case (Cons s ss)
  from Cons.prems(2) obtain h where "ratelimit_buckets ctx = Some h"
    by (auto simp: buckets_in_bounds_def split: option.splits)
  then obtain r c where st: "rspamd_fuzzy_check_ratelimit s ctx = Inr (r, c)"
    using check_ratelimit_total by blast
  from check_ratelimit_in_bounds[OF Cons.prems st]
  have "leaky_bucket_burst c = Fin b" and "buckets_in_bounds b c" by simp_all
  from Cons.IH[OF this] obtain rs ctx1 where
    "rspamd_fuzzy_check_ratelimit_all ss c = Inr (rs, ctx1)" and "buckets_in_bounds b ctx1"
    by blast
  with st show ?case by simp
qed

theorem ratelimit_levels_bounded_witness:
  "leaky_bucket_burst (ratelimit_ctx (1/2) 2) = Fin 2
   \<and> buckets_in_bounds 2 (ratelimit_ctx (1/2) 2)
   \<and> (\<exists>rs ctx1.
         rspamd_fuzzy_check_ratelimit_all
           [check_session (AF_INET 0x01020304) 100, check_session (AF_INET 0x01020304) 100,
            check_session (AF_INET 0x01020304) 101] (ratelimit_ctx (1/2) 2) = Inr (rs, ctx1)
         \<and> buckets_in_bounds 2 ctx1)"
proof -
  have b: "leaky_bucket_burst (ratelimit_ctx (1/2) 2) = Fin 2"
    by (simp add: ratelimit_ctx_def start_fuzzy_def init_fuzzy_def)
  have i: "buckets_in_bounds 2 (ratelimit_ctx (1/2) 2)"
    by (simp add: buckets_in_bounds_def ratelimit_ctx_def start_fuzzy_def init_fuzzy_def)
  from ratelimit_levels_bounded[OF b i] b i show ?thesis by blast
qed

text \<open>
  C8: a bucket whose level is NaN stays rate limited. Let the table hold under the key
  \<open>k\<close> an entry \<open>e\<close> whose level is NaN. Then every rate-limiter call returns, and
  afterwards the table holds under \<open>k\<close> the very same entry, or no entry (it was
  evicted), or the entry had outlived its time to live at the time of the call (it was
  removed by the lookup): no call makes the level of the entry a number. And a call for
  a source that is not whitelisted, whose masked address is \<open>k\<close>, while the entry
  has not expired, is denied, calls the blacklist hook with reason "ratelimit" (when a
  hook is registered) and leaves the entry as it is.
\<close>

theorem ratelimited_bucket_preserved:
  assumes "ratelimit_buckets ctx = Some h"
    and "lru_peek h k = Some e"
    and "isnan (elt_cur (lru_data e))"
  shows "\<exists>r h1 ctx1.
           rspamd_fuzzy_check_ratelimit s ctx = Inr (r, ctx1) \<and>
           ratelimit_buckets ctx1 = Some h1 \<and>
           (lru_peek h1 k = Some e \<or> lru_peek h1 k = None \<or>
            lru_expired e (time_t_of (timestamp s))) \<and>
           (\<forall>a. addr s = Some a \<and> \<not> radix_map_matches (ratelimit_whitelist ctx) a \<and>
                ratelimit_masked ctx a = k \<and> \<not> lru_expired e (time_t_of (timestamp s)) \<longrightarrow>
                r = False \<and> lru_peek h1 k = Some e \<and>
                ctx1 = rspamd_fuzzy_maybe_call_blacklisted
                         (ctx\<lparr>ratelimit_buckets := Some h1\<rparr>) a ''ratelimit'')"
proof (cases "addr s")
  case None
  then show ?thesis using assms by (auto simp: rspamd_fuzzy_check_ratelimit_def)
next
  case (Some a)
  let ?now = "time_t_of (timestamp s)"
  let ?k' = "ratelimit_masked ctx a"
  let ?f = "rspamd_lru_hash_lookup h ?k' ?now"
  show ?thesis
  proof (cases "radix_map_matches (ratelimit_whitelist ctx) a")
    case True
    then show ?thesis using assms Some by (auto simp: rspamd_fuzzy_check_ratelimit_def)
  next
    case nowl: False
    show ?thesis
    proof (cases "?k' = k")
      case same: True
      show ?thesis
      proof (cases "lru_expired e ?now")
        case True
        then show ?thesis using assms Some nowl
          by (auto simp: rspamd_fuzzy_check_ratelimit_def Let_def
              rspamd_fuzzy_maybe_call_blacklisted_def split: option.splits)
      next
        case False
        from lru_lookup_hit[OF assms(2) False] same
        have f: "?f = (Some (lru_data e), h\<lparr>nodes := e # lru_others h k\<rparr>)"
          and p: "lru_peek (snd ?f) k = Some e" by simp_all
        have "rspamd_fuzzy_check_ratelimit s ctx =
                Inr (False, rspamd_fuzzy_maybe_call_blacklisted
                              (ctx\<lparr>ratelimit_buckets := Some (snd ?f)\<rparr>) a ''ratelimit'')"
          using assms Some nowl f by (simp add: rspamd_fuzzy_check_ratelimit_def Let_def)
        then show ?thesis using p Some
          by (auto simp: rspamd_fuzzy_maybe_call_blacklisted_def)
      qed
    next
      case other: False
      have p: "lru_peek (snd ?f) k = Some e"
        by (simp add: lru_peek_lookup_other[OF other] assms(2))
      show ?thesis
      proof (cases "fst ?f")
        case None
        let ?h1 = "rspamd_lru_hash_insert (snd ?f) ?k'
                      \<lparr>elt_addr = Some ?k', elt_last = Fin (timestamp s), elt_cur = Fin 1\<rparr>
                      ?now (uint (leaky_bucket_ttl ctx))"
        have "rspamd_fuzzy_check_ratelimit s ctx = Inr (True, ctx\<lparr>ratelimit_buckets := Some ?h1\<rparr>)"
          using assms Some nowl None by (simp add: rspamd_fuzzy_check_ratelimit_def Let_def)
        moreover have "lru_peek ?h1 k = None \<or> lru_peek ?h1 k = Some e"
          using lru_peek_insert_other[OF other, of "snd ?f"] p by auto
        ultimately show ?thesis using Some other by auto
      next
        case found: (Some elt)
        show ?thesis
        proof (cases "isnan (elt_cur elt)")
          case True
          have "rspamd_fuzzy_check_ratelimit s ctx =
                Inr (False, rspamd_fuzzy_maybe_call_blacklisted
                              (ctx\<lparr>ratelimit_buckets := Some (snd ?f)\<rparr>) a ''ratelimit'')"
            using assms Some nowl found True by (simp add: rspamd_fuzzy_check_ratelimit_def Let_def)
          then show ?thesis using p Some other
            by (auto simp: rspamd_fuzzy_maybe_call_blacklisted_def)
        next
          case False
          let ?h1 = "lru_store (snd ?f) ?k'
                        (leaky_bucket_check ctx (leaky_bucket_update ctx (timestamp s) elt))"
          have "rspamd_fuzzy_check_ratelimit s ctx = Inr (True, ctx\<lparr>ratelimit_buckets := Some ?h1\<rparr>)"
            using assms Some nowl found False by (simp add: rspamd_fuzzy_check_ratelimit_def Let_def)
          moreover have "lru_peek ?h1 k = Some e"
            by (simp add: lru_peek_store_other[OF other] p)
          ultimately show ?thesis using Some other by auto
        qed
      qed
    qed
  qed
qed

theorem ratelimited_bucket_preserved_witness:
  "ratelimit_buckets ratelimited_ctx = Some \<lparr>maxsize = 2000, nodes = [ratelimited_elt]\<rparr>
   \<and> lru_peek \<lparr>maxsize = 2000, nodes = [ratelimited_elt]\<rparr> (AF_INET 0x01020304) = Some ratelimited_elt
   \<and> isnan (elt_cur (lru_data ratelimited_elt))
   \<and> addr (check_session (AF_INET 0x01020304) 101) = Some (AF_INET 0x01020304)
   \<and> \<not> radix_map_matches (ratelimit_whitelist ratelimited_ctx) (AF_INET 0x01020304)
   \<and> ratelimit_masked ratelimited_ctx (AF_INET 0x01020304) = AF_INET 0x01020304
   \<and> \<not> lru_expired ratelimited_elt (time_t_of (timestamp (check_session (AF_INET 0x01020304) 101)))
   \<and> (\<exists>h1. rspamd_fuzzy_check_ratelimit (check_session (AF_INET 0x01020304) 101) ratelimited_ctx
              = Inr (False, rspamd_fuzzy_maybe_call_blacklisted
                              (ratelimited_ctx\<lparr>ratelimit_buckets := Some h1\<rparr>)
                              (AF_INET 0x01020304) ''ratelimit'')
            \<and> lru_peek h1 (AF_INET 0x01020304) = Some ratelimited_elt)
   \<and> ratelimit_run [check_session (AF_INET 0x01020304) 101] ratelimited_ctx
       = Inr ([False], [NaN], [Lua_blacklist (AF_INET 0x01020304) ''ratelimit''])"
proof -
  let ?h = "\<lparr>maxsize = 2000, nodes = [ratelimited_elt]\<rparr>"
  let ?a = "AF_INET 0x01020304"
  let ?s = "check_session ?a 101"
  have 1: "ratelimit_buckets ratelimited_ctx = Some ?h"
    by (simp add: ratelimited_ctx_def)
  have 2: "lru_peek ?h ?a = Some ratelimited_elt"
    by (simp add: lru_peek_def ratelimited_elt_def)
  have 3: "isnan (elt_cur (lru_data ratelimited_elt))"
    by (simp add: ratelimited_elt_def)
  have 4: "addr ?s = Some ?a" by (simp add: check_session_def)
  have 5: "\<not> radix_map_matches (ratelimit_whitelist ratelimited_ctx) ?a"
    by (simp add: ratelimit_scenario_defs ratelimited_ctx_def ratelimited_elt_def)
  have 6: "ratelimit_masked ratelimited_ctx ?a = ?a"
    by (simp add: ratelimit_scenario_defs ratelimited_ctx_def ratelimited_elt_def)
  have 7: "\<not> lru_expired ratelimited_elt (time_t_of (timestamp ?s))"
    by (simp add: ratelimit_scenario_defs ratelimited_ctx_def ratelimited_elt_def)
  have 8: "ratelimit_run [?s] ratelimited_ctx = Inr ([False], [NaN], [Lua_blacklist ?a ''ratelimit''])"
    by (simp add: ratelimit_scenario_defs ratelimited_ctx_def ratelimited_elt_def)
  from ratelimited_bucket_preserved[OF 1 2 3, of ?s] 4 5 6 7
  have "\<exists>h1. rspamd_fuzzy_check_ratelimit ?s ratelimited_ctx
              = Inr (False, rspamd_fuzzy_maybe_call_blacklisted
                              (ratelimited_ctx\<lparr>ratelimit_buckets := Some h1\<rparr>) ?a ''ratelimit'')
            \<and> lru_peek h1 ?a = Some ratelimited_elt"
    by blast
  with 1 2 3 4 5 6 7 8 show ?thesis by blast
qed

subsection \<open>The update pipeline\<close>

text \<open>
  C3: the drain of the pending queue. With the queue allocated: an empty queue and a
  drain that is not final change nothing and return false; an empty queue and a final
  drain request the exit of the event loop (and return false); otherwise a new
  transaction with the source and the final flag takes the queued commands, the pending
  queue is left empty, the transaction is handed to the backend, and the drain returns
  true.
\<close>

theorem process_updates_queue_drain:
  assumes "updates_pending ctx = Some q"
  shows "(q = [] \<and> \<not> final \<longrightarrow>
            rspamd_fuzzy_process_updates_queue ctx source final = Inr (False, ctx))
       \<and> (q = [] \<and> final \<longrightarrow>
            rspamd_fuzzy_process_updates_queue ctx source final
              = Inr (False, ctx\<lparr>effects := effects ctx @ [Ev_break]\<rparr>))
       \<and> (q \<noteq> [] \<longrightarrow>
            rspamd_fuzzy_process_updates_queue ctx source final
              = Inr (True, ctx\<lparr>updates_pending := Some [],
                               effects := effects ctx @
                                 [Backend_process_updates
                                    \<lparr>cb_updates_pending = q, cb_source = source, cb_final = final\<rparr>]\<rparr>))"
  using assms by (simp add: rspamd_fuzzy_process_updates_queue_def Let_def)

theorem process_updates_queue_drain_witness:
  "updates_pending (update_ctx [write_cmd 1, write_cmd 2] 0) = Some [write_cmd 1, write_cmd 2]
   \<and> [write_cmd 1, write_cmd 2] \<noteq> []
   \<and> rspamd_fuzzy_process_updates_queue (update_ctx [write_cmd 1, write_cmd 2] 0) ''local'' False
       = Inr (True, (update_ctx [write_cmd 1, write_cmd 2] 0)
                \<lparr>updates_pending := Some [],
                 effects := effects (update_ctx [write_cmd 1, write_cmd 2] 0) @
                   [Backend_process_updates
                      \<lparr>cb_updates_pending = [write_cmd 1, write_cmd 2], cb_source = ''local'',
                       cb_final = False\<rparr>]\<rparr>)
   \<and> updates_pending (update_ctx [] 0) = Some []
   \<and> rspamd_fuzzy_process_updates_queue (update_ctx [] 0) ''local'' False
       = Inr (False, update_ctx [] 0)
   \<and> rspamd_fuzzy_process_updates_queue (update_ctx [] 0) ''local'' True
       = Inr (False, (update_ctx [] 0)\<lparr>effects := effects (update_ctx [] 0) @ [Ev_break]\<rparr>)"
proof -
  have 1: "updates_pending (update_ctx [write_cmd 1, write_cmd 2] 0) = Some [write_cmd 1, write_cmd 2]"
    by (simp add: update_ctx_def)
  have 2: "updates_pending (update_ctx [] 0) = Some []"
    by (simp add: update_ctx_def)
  show ?thesis
    using process_updates_queue_drain[OF 1, of False "''local''"]
      process_updates_queue_drain[OF 2, of False "''local''"]
      process_updates_queue_drain[OF 2, of True "''local''"] 1 2
    by simp
qed

text \<open>
  C2: the commit callback, with the pending queue \<open>q\<close> allocated and the transaction
  holding the updates \<open>us\<close>. On success the failure counter is reset to 0. On failure
  the counter is incremented; if it then exceeds \<open>updates_maxfail\<close>, the counter is reset
  to 0 and the updates of the transaction are dropped (the pending queue is as before
  and nothing is handed to the backend). Otherwise the updates are appended to the
  pending queue, behind the commands that arrived meanwhile; a transaction that is not
  final stops there, and for a final one the queue \<open>q @ us\<close> is drained at once.
\<close>

theorem updates_cb_commit:
  assumes "updates_pending ctx = Some q"
    and "cb_updates_pending cbdata = us"
  shows "(\<exists>ctx1. rspamd_fuzzy_updates_cb True na nd ne ni cbdata ctx = Inr ctx1
                 \<and> updates_failed ctx1 = 0 \<and> updates_pending ctx1 = Some q)
       \<and> (updates_failed ctx + 1 > updates_maxfail ctx \<longrightarrow>
            (\<exists>ctx1. rspamd_fuzzy_updates_cb False na nd ne ni cbdata ctx = Inr ctx1
                 \<and> updates_failed ctx1 = 0 \<and> updates_pending ctx1 = Some q
                 \<and> effects ctx1 = effects (plan_exit cbdata ctx)))
       \<and> (\<not> updates_failed ctx + 1 > updates_maxfail ctx \<and> \<not> cb_final cbdata \<longrightarrow>
            rspamd_fuzzy_updates_cb False na nd ne ni cbdata ctx
              = Inr (ctx\<lparr>updates_failed := updates_failed ctx + 1,
                         updates_pending := Some (q @ us)\<rparr>))
       \<and> (\<not> updates_failed ctx + 1 > updates_maxfail ctx \<and> cb_final cbdata \<longrightarrow>
            (\<exists>r ctx1.
               rspamd_fuzzy_process_updates_queue
                 (ctx\<lparr>updates_failed := updates_failed ctx + 1, updates_pending := Some (q @ us)\<rparr>)
                 (cb_source cbdata) True = Inr (r, ctx1)
               \<and> rspamd_fuzzy_updates_cb False na nd ne ni cbdata ctx = Inr ctx1
               \<and> updates_failed ctx1 = updates_failed ctx + 1
               \<and> updates_pending ctx1 = Some []
               \<and> (q @ us \<noteq> [] \<longrightarrow>
                    effects ctx1 = effects ctx @
                      [Backend_process_updates
                         \<lparr>cb_updates_pending = q @ us, cb_source = cb_source cbdata,
                          cb_final = True\<rparr>])))"
proof (intro conjI impI)
  show "\<exists>ctx1. rspamd_fuzzy_updates_cb True na nd ne ni cbdata ctx = Inr ctx1
                 \<and> updates_failed ctx1 = 0 \<and> updates_pending ctx1 = Some q"
    using assms by (simp add: rspamd_fuzzy_updates_cb_def plan_exit_def Let_def)
next
  assume "updates_failed ctx + 1 > updates_maxfail ctx"
  then show "\<exists>ctx1. rspamd_fuzzy_updates_cb False na nd ne ni cbdata ctx = Inr ctx1
                 \<and> updates_failed ctx1 = 0 \<and> updates_pending ctx1 = Some q
                 \<and> effects ctx1 = effects (plan_exit cbdata ctx)"
    using assms by (simp add: rspamd_fuzzy_updates_cb_def plan_exit_def Let_def)
next
  assume "\<not> updates_failed ctx + 1 > updates_maxfail ctx \<and> \<not> cb_final cbdata"
  then show "rspamd_fuzzy_updates_cb False na nd ne ni cbdata ctx
              = Inr (ctx\<lparr>updates_failed := updates_failed ctx + 1,
                         updates_pending := Some (q @ us)\<rparr>)"
    using assms by (simp add: rspamd_fuzzy_updates_cb_def Let_def)
next
  assume a: "\<not> updates_failed ctx + 1 > updates_maxfail ctx \<and> cb_final cbdata"
  let ?c = "ctx\<lparr>updates_failed := updates_failed ctx + 1, updates_pending := Some (q @ us)\<rparr>"
  have cb: "rspamd_fuzzy_updates_cb False na nd ne ni cbdata ctx =
          (case rspamd_fuzzy_process_updates_queue ?c (cb_source cbdata) True of
             Inl f \<Rightarrow> Inl f | Inr (r, ctx3) \<Rightarrow> Inr ctx3)"
    using assms a by (simp add: rspamd_fuzzy_updates_cb_def Let_def)
  show "\<exists>r ctx1.
               rspamd_fuzzy_process_updates_queue ?c (cb_source cbdata) True = Inr (r, ctx1)
               \<and> rspamd_fuzzy_updates_cb False na nd ne ni cbdata ctx = Inr ctx1
               \<and> updates_failed ctx1 = updates_failed ctx + 1
               \<and> updates_pending ctx1 = Some []
               \<and> (q @ us \<noteq> [] \<longrightarrow>
                    effects ctx1 = effects ctx @
                      [Backend_process_updates
                         \<lparr>cb_updates_pending = q @ us, cb_source = cb_source cbdata,
                          cb_final = True\<rparr>])"
    unfolding cb by (auto simp: rspamd_fuzzy_process_updates_queue_def Let_def)
qed

theorem updates_cb_commit_witness:
  "updates_pending (update_ctx [write_cmd 3] 0) = Some [write_cmd 3]
   \<and> updates_pending (update_ctx [write_cmd 3] 3) = Some [write_cmd 3]
   \<and> \<not> updates_failed (update_ctx [write_cmd 3] 0) + 1 > updates_maxfail (update_ctx [write_cmd 3] 0)
   \<and> updates_failed (update_ctx [write_cmd 3] 3) + 1 > updates_maxfail (update_ctx [write_cmd 3] 3)
   \<and> rspamd_fuzzy_updates_cb False 0 0 0 0
         \<lparr>cb_updates_pending = [write_cmd 1, write_cmd 2], cb_source = ''local'', cb_final = False\<rparr>
         (update_ctx [write_cmd 3] 0)
       = Inr ((update_ctx [write_cmd 3] 0)
                \<lparr>updates_failed := 1, updates_pending := Some [write_cmd 3, write_cmd 1, write_cmd 2]\<rparr>)
   \<and> (\<exists>ctx1. rspamd_fuzzy_updates_cb False 0 0 0 0
                  \<lparr>cb_updates_pending = [write_cmd 1, write_cmd 2], cb_source = ''local'', cb_final = False\<rparr>
                  (update_ctx [write_cmd 3] 3) = Inr ctx1
             \<and> updates_failed ctx1 = 0 \<and> updates_pending ctx1 = Some [write_cmd 3]
             \<and> effects ctx1 = [])
   \<and> (\<exists>ctx1. rspamd_fuzzy_updates_cb False 0 0 0 0
                  \<lparr>cb_updates_pending = [write_cmd 1, write_cmd 2], cb_source = ''local'', cb_final = True\<rparr>
                  (update_ctx [write_cmd 3] 0) = Inr ctx1
             \<and> updates_failed ctx1 = 1 \<and> updates_pending ctx1 = Some []
             \<and> effects ctx1 =
                   [Backend_process_updates
                      \<lparr>cb_updates_pending = [write_cmd 3, write_cmd 1, write_cmd 2],
                       cb_source = ''local'', cb_final = True\<rparr>])
   \<and> (\<exists>ctx1. rspamd_fuzzy_updates_cb True 2 0 0 0
                  \<lparr>cb_updates_pending = [write_cmd 1, write_cmd 2], cb_source = ''local'', cb_final = False\<rparr>
                  (update_ctx [write_cmd 3] 2) = Inr ctx1
             \<and> updates_failed ctx1 = 0)"
proof -
  let ?cb = "\<lparr>cb_updates_pending = [write_cmd 1, write_cmd 2], cb_source = ''local'', cb_final = False\<rparr>"
  let ?cbf = "\<lparr>cb_updates_pending = [write_cmd 1, write_cmd 2], cb_source = ''local'', cb_final = True\<rparr>"
  have p: "updates_pending (update_ctx [write_cmd 3] n) = Some [write_cmd 3]" for n
    by (simp add: update_ctx_def)
  have u: "cb_updates_pending ?cb = [write_cmd 1, write_cmd 2]"
    "cb_updates_pending ?cbf = [write_cmd 1, write_cmd 2]" by simp_all
  have f: "updates_failed (update_ctx [write_cmd 3] n) = n"
    "updates_maxfail (update_ctx [write_cmd 3] n) = 3"
    "effects (update_ctx [write_cmd 3] n) = []"
    "worker_running (update_ctx [write_cmd 3] n)" for n
    by (simp_all add: update_ctx_def start_fuzzy_def init_fuzzy_def)
  show ?thesis
    using updates_cb_commit[of "update_ctx [write_cmd 3] 0" "[write_cmd 3]" "?cb" _ 0 0 0 0, OF p u(1)]
      updates_cb_commit[of "update_ctx [write_cmd 3] 3" "[write_cmd 3]" "?cb" _ 0 0 0 0, OF p u(1)]
      updates_cb_commit[of "update_ctx [write_cmd 3] 2" "[write_cmd 3]" "?cb" _ 2 0 0 0, OF p u(1)]
      updates_cb_commit[of "update_ctx [write_cmd 3] 0" "[write_cmd 3]" "?cbf" _ 0 0 0 0, OF p u(2)]
    by (auto simp: p f plan_exit_def)
qed

subsection \<open>The write permission\<close>










subsection \<open>Statistics\<close>

lemma update_stats_key_part:
  "fst (snd (rspamd_fuzzy_update_stats ctx ep m sh dl (Some ks) ips c rep ts))
     = Some (update_stats_key m c rep ts ks)"
  by (simp add: rspamd_fuzzy_update_stats_def)

lemma hour_old_key_stat_fields:
  "checked hour_old_key_stat = 4" "matched hour_old_key_stat = 1"
  "last_checked_time hour_old_key_stat = Fin 1000"
  "last_checked_count hour_old_key_stat = 1" "last_matched_count hour_old_key_stat = 1"
  "checked_ctr hour_old_key_stat = \<lparr>mean = Fin 0, number = 0\<rparr>"
  "matched_ctr hour_old_key_stat = \<lparr>mean = Fin 0, number = 0\<rparr>"
  by (simp_all add: hour_old_key_stat_def update_stats_key_def client_key_def
      fuzzy_parse_keypair_def zeroed_key_stat_def KEY_STAT_INTERVAL_def Let_def)

text \<open>
  C6 fails on the code. In the branch taken when the timestamp of a CHECK exceeds
  \<open>last_checked_time\<close> by more than 3600 seconds, the code feeds the difference of the
  checked counts and then the difference of the matched counts into the moving average
  \<open>checked_ctr\<close>, and leaves \<open>matched_ctr\<close> as it was; the snapshot of the counts and
  of the timestamp is taken as the claim says.
\<close>

theorem update_stats_feeds_checked_ctr_twice:
  assumes "last_checked_time ks = Fin t0" and "t0 \<noteq> 0" and "t0 + 3600 < ts"
    and "m \<or> rep = 0"
  shows "\<exists>ks1. fst (snd (rspamd_fuzzy_update_stats ctx ep m sh dl (Some ks) ips FUZZY_CHECK rep ts))
                 = Some ks1
           \<and> matched_ctr ks1 = matched_ctr ks
           \<and> checked_ctr ks1 =
               rspamd_set_counter_ema
                 (rspamd_set_counter_ema (checked_ctr ks)
                    (double_of_u64 (checked ks1 - last_checked_count ks)) (Fin (1/2)))
                 (double_of_u64 (matched ks1 - last_matched_count ks)) (Fin (1/2))
           \<and> last_checked_time ks1 = Fin ts
           \<and> last_checked_count ks1 = checked ks1
           \<and> last_matched_count ks1 = matched ks1"
  using assms
  by (auto simp: update_stats_key_part update_stats_key_def KEY_STAT_INTERVAL_def Let_def)

theorem update_stats_feeds_checked_ctr_twice_witness:
  "last_checked_time hour_old_key_stat = Fin 1000 \<and> (1000::real) \<noteq> 0 \<and> (1000::real) + 3600 < 5000
   \<and> (\<exists>ks1. fst (snd (rspamd_fuzzy_update_stats init_fuzzy RSPAMD_FUZZY_EPOCH11 False False False
                          (Some hour_old_key_stat) None FUZZY_CHECK 0 5000)) = Some ks1
         \<and> checked ks1 = 5 \<and> matched ks1 = 1
         \<and> matched_ctr ks1 = \<lparr>mean = Fin 0, number = 0\<rparr>
         \<and> checked_ctr ks1 = \<lparr>mean = Fin 1, number = 2\<rparr>
         \<and> last_checked_time ks1 = Fin 5000)"
proof -
  note h = hour_old_key_stat_fields
  have v: "checked (update_stats_key False FUZZY_CHECK 0 5000 hour_old_key_stat) = 5"
    "matched (update_stats_key False FUZZY_CHECK 0 5000 hour_old_key_stat) = 1"
    by (simp_all add: update_stats_key_def h KEY_STAT_INTERVAL_def Let_def)
  from update_stats_feeds_checked_ctr_twice[OF h(3), of 5000 False 0 init_fuzzy RSPAMD_FUZZY_EPOCH11
      False False None]
  obtain ks1 where
    k: "fst (snd (rspamd_fuzzy_update_stats init_fuzzy RSPAMD_FUZZY_EPOCH11 False False False
                          (Some hour_old_key_stat) None FUZZY_CHECK 0 5000)) = Some ks1"
    and r: "matched_ctr ks1 = matched_ctr hour_old_key_stat"
      "checked_ctr ks1 =
               rspamd_set_counter_ema
                 (rspamd_set_counter_ema (checked_ctr hour_old_key_stat)
                    (double_of_u64 (checked ks1 - last_checked_count hour_old_key_stat)) (Fin (1/2)))
                 (double_of_u64 (matched ks1 - last_matched_count hour_old_key_stat)) (Fin (1/2))"
      "last_checked_time ks1 = Fin 5000"
    by auto
  from k have ks1: "ks1 = update_stats_key False FUZZY_CHECK 0 5000 hour_old_key_stat"
    by (simp add: update_stats_key_part)
  have "checked ks1 = 5" "matched ks1 = 1" using v ks1 by simp_all
  with r h have "matched_ctr ks1 = \<lparr>mean = Fin 0, number = 0\<rparr>"
    "checked_ctr ks1 = \<lparr>mean = Fin 1, number = 2\<rparr>"
    by (simp_all add: rspamd_set_counter_ema_def double_of_u64_def)
  with k r \<open>checked ks1 = 5\<close> \<open>matched ks1 = 1\<close> h(3) show ?thesis by simp
qed

text \<open>
  C7: the statistics of a key start zeroed (\<open>fuzzy_parse_keypair\<close> allocates them with
  \<open>g_malloc0\<close>), so \<open>last_checked_time\<close> is 0.0 until a CHECK is counted for the key.
  The first CHECK that is counted (one whose result is matched or has the value 0: any
  other is counted as an error) sets \<open>last_checked_time\<close> to the timestamp of the
  request and takes the snapshot of the checked and of the matched count.
\<close>

theorem update_stats_first_check_initialises:
  assumes "last_checked_time ks = Fin 0" and "m \<or> rep = 0"
  shows "\<exists>ks1. fst (snd (rspamd_fuzzy_update_stats ctx ep m sh dl (Some ks) ips FUZZY_CHECK rep ts))
                 = Some ks1
           \<and> checked ks1 = checked ks + 1
           \<and> matched ks1 = matched ks + (if m then 1 else 0)
           \<and> last_checked_time ks1 = Fin ts
           \<and> last_checked_count ks1 = checked ks1
           \<and> last_matched_count ks1 = matched ks1"
  using assms
  by (auto simp: update_stats_key_part update_stats_key_def Let_def)

theorem update_stats_first_check_initialises_witness:
  "last_checked_time (stat client_key) = Fin 0
   \<and> (\<exists>ks1. fst (snd (rspamd_fuzzy_update_stats init_fuzzy RSPAMD_FUZZY_EPOCH11 True False False
                          (Some (stat client_key)) None FUZZY_CHECK 5 100)) = Some ks1
         \<and> checked ks1 = 1 \<and> matched ks1 = 1
         \<and> last_checked_time ks1 = Fin 100
         \<and> last_checked_count ks1 = 1 \<and> last_matched_count ks1 = 1)"
proof -
  have z: "last_checked_time (stat client_key) = Fin 0"
    "checked (stat client_key) = 0" "matched (stat client_key) = 0"
    by (simp_all add: client_key_def fuzzy_parse_keypair_def zeroed_key_stat_def)
  from update_stats_first_check_initialises[OF z(1), of True 5 init_fuzzy RSPAMD_FUZZY_EPOCH11
      False False None 100] z
  show ?thesis by auto
qed

subsection \<open>Replies and the matched counters\<close>

lemmas request_scenario_defs =
  request_summary_def trace_after_def found_count_def key_matched_def ip_matched_def
  key_stat_of_def ip_stat_of_def check_then_callback_def
  rspamd_fuzzy_process_command_def call_pre_handler_def attach_ip_stat_def set_last_ips_def
  rspamd_lru_hash_lookup_def rspamd_lru_hash_insert_def lru_peek_def lru_others_def
  lru_expired_def rspamd_fuzzy_check_write_def enqueue_update_def hash_map_matches_def radix_map_matches_def
  rspamd_fuzzy_make_reply_def rspamd_fuzzy_update_stats_def update_stats_global_def
  update_stats_key_def update_stats_ip_def store_key_stat_def store_ip_stat_def
  key_forbids_def is_forbidden_def rspamd_fuzzy_write_reply_def
  rspamd_fuzzy_check_callback_def call_post_handler_def hash_is_delayed_def double_of_u64_def
  refresh_cmd_def enqueue_refresh_def
  write_session_def key_check_session_def found_result_def delaying_ctx_def no_jitter_def
  write_ctx_def client_key_def client_key_id_def fuzzy_parse_keypair_def zeroed_key_stat_def
  new_fuzzy_generic_stat_def start_fuzzy_def init_fuzzy_def Let_def

text \<open>
  The statistics of a client address are one object, shared by the requests of the
  client: after two accepted WRITEs of the client 10.0.0.1 one object has been
  allocated, and it counts two added hashes, as the statistics of the key do.
\<close>

lemma ip_stat_shared_by_requests:
  "map_sum id (\<lambda>ctx. (ip_stats_allocated ctx, added (ip_stats ctx 0),
                         added (stat (keys ctx client_key_id))))
     (rspamd_fuzzy_process_commands
        [write_session (AF_INET 0x0A000001), write_session (AF_INET 0x0A000001)] write_ctx)
     = Inr (1, 2, 2)"
  by (simp add: request_scenario_defs)



subsection \<open>The request that trips the rate limit\<close>

lemma lru_peek_store_hit:
  "lru_key e = k \<Longrightarrow>
     lru_peek (lru_store (h\<lparr>nodes := e # lru_others h k\<rparr>) k v) k = Some (e\<lparr>lru_data := v\<rparr>)"
  by (simp add: lru_peek_def lru_store_def)

lemmas process_scenario_defs =
  process_run_def rspamd_fuzzy_process_command_def call_pre_handler_def attach_ip_stat_def
  rspamd_fuzzy_make_reply_def rspamd_fuzzy_write_reply_def rspamd_fuzzy_update_stats_def
  update_stats_global_def store_key_stat_def store_ip_stat_def key_forbids_def
  check_cmd_def check_refused_def full_ctx_def full_elt_def

text \<open>
  C1 fails on the code. The request that finds the level of its bucket at or above the
  burst does set the level to NaN, but the flag \<open>ratelimited\<close> stays false on that
  path: the rate limiter allows this request and does not call the blacklist hook.
  The denial and the hook come with the next request, which finds the level NaN.
\<close>

theorem ratelimit_trip_is_allowed:
  assumes "addr session = Some a"
    and "\<not> radix_map_matches (ratelimit_whitelist ctx) a"
    and "ratelimit_buckets ctx = Some h"
    and "lru_peek h (ratelimit_masked ctx a) = Some e"
    and "\<not> lru_expired e (time_t_of (timestamp session))"
    and "\<not> isnan (elt_cur (lru_data e))"
    and "d_ge (elt_cur (leaky_bucket_update ctx (timestamp session) (lru_data e)))
           (leaky_bucket_burst ctx)"
  shows "\<exists>h1 e1.
           rspamd_fuzzy_check_ratelimit session ctx = Inr (True, ctx\<lparr>ratelimit_buckets := Some h1\<rparr>)
           \<and> lru_peek h1 (ratelimit_masked ctx a) = Some e1
           \<and> isnan (elt_cur (lru_data e1))"
proof -
  let ?k = "ratelimit_masked ctx a"
  let ?v = "leaky_bucket_check ctx (leaky_bucket_update ctx (timestamp session) (lru_data e))"
  let ?h0 = "h\<lparr>nodes := e # lru_others h ?k\<rparr>"
  have f: "rspamd_lru_hash_lookup h ?k (time_t_of (timestamp session)) = (Some (lru_data e), ?h0)"
    using lru_lookup_hit(1)[OF assms(4,5)] .
  have r: "rspamd_fuzzy_check_ratelimit session ctx
             = Inr (True, ctx\<lparr>ratelimit_buckets := Some (lru_store ?h0 ?k ?v)\<rparr>)"
    using assms(1,2,3,6) f by (simp add: rspamd_fuzzy_check_ratelimit_def Let_def)
  have p: "lru_peek (lru_store ?h0 ?k ?v) ?k = Some (e\<lparr>lru_data := ?v\<rparr>)"
    using lru_peek_store_hit[OF lru_peek_key[OF assms(4)]] .
  have n: "isnan (elt_cur ?v)"
    using assms(7) by (simp add: leaky_bucket_check_def)
  from r p n show ?thesis by auto
qed

theorem ratelimit_trip_is_allowed_witness:
  "addr (check_session (AF_INET 0x01020304) (201/2)) = Some (AF_INET 0x01020304)
   \<and> \<not> radix_map_matches (ratelimit_whitelist full_ctx) (AF_INET 0x01020304)
   \<and> ratelimit_buckets full_ctx = Some \<lparr>maxsize = 2000, nodes = [full_elt]\<rparr>
   \<and> lru_peek \<lparr>maxsize = 2000, nodes = [full_elt]\<rparr> (ratelimit_masked full_ctx (AF_INET 0x01020304))
       = Some full_elt
   \<and> \<not> lru_expired full_elt (time_t_of (timestamp (check_session (AF_INET 0x01020304) (201/2))))
   \<and> \<not> isnan (elt_cur (lru_data full_elt))
   \<and> d_ge (elt_cur (leaky_bucket_update full_ctx
                      (timestamp (check_session (AF_INET 0x01020304) (201/2))) (lru_data full_elt)))
        (leaky_bucket_burst full_ctx)
   \<and> (\<exists>h1. rspamd_fuzzy_check_ratelimit (check_session (AF_INET 0x01020304) (201/2)) full_ctx
              = Inr (True, full_ctx\<lparr>ratelimit_buckets := Some h1\<rparr>))
   \<and> process_run [check_session (AF_INET 0x01020304) 100, check_session (AF_INET 0x01020304) (401/4),
                   check_session (AF_INET 0x01020304) (201/2)] (ratelimit_ctx 0 2)
       = Inr ([Backend_check (check_session (AF_INET 0x01020304) 100),
               Backend_check (check_session (AF_INET 0x01020304) (401/4)),
               Backend_check (check_session (AF_INET 0x01020304) (201/2))], [NaN])
   \<and> process_run [check_session (AF_INET 0x01020304) 100, check_session (AF_INET 0x01020304) (401/4),
                   check_session (AF_INET 0x01020304) (201/2), check_session (AF_INET 0x01020304) (403/4)]
        (ratelimit_ctx 0 2)
       = Inr ([Backend_check (check_session (AF_INET 0x01020304) 100),
               Backend_check (check_session (AF_INET 0x01020304) (401/4)),
               Backend_check (check_session (AF_INET 0x01020304) (201/2)),
               Lua_blacklist (AF_INET 0x01020304) ''ratelimit'', check_refused], [NaN])"
proof -
  let ?a = "AF_INET 0x01020304"
  let ?s = "check_session ?a (201/2)"
  let ?h = "\<lparr>maxsize = 2000, nodes = [full_elt]\<rparr>"
  have 1: "addr ?s = Some ?a" by (simp add: check_session_def)
  have 2: "\<not> radix_map_matches (ratelimit_whitelist full_ctx) ?a"
    by (simp add: full_ctx_def ratelimit_scenario_defs)
  have 3: "ratelimit_buckets full_ctx = Some ?h" by (simp add: full_ctx_def)
  have 4: "lru_peek ?h (ratelimit_masked full_ctx ?a) = Some full_elt"
    by (simp add: full_ctx_def full_elt_def ratelimit_scenario_defs)
  have 5: "\<not> lru_expired full_elt (time_t_of (timestamp ?s))"
    by (simp add: full_elt_def ratelimit_scenario_defs)
  have 6: "\<not> isnan (elt_cur (lru_data full_elt))" by (simp add: full_elt_def)
  have 7: "d_ge (elt_cur (leaky_bucket_update full_ctx (timestamp ?s) (lru_data full_elt)))
             (leaky_bucket_burst full_ctx)"
    by (simp add: full_ctx_def full_elt_def ratelimit_scenario_defs)
  have 8: "process_run [check_session ?a 100, check_session ?a (401/4), ?s] (ratelimit_ctx 0 2)
       = Inr ([Backend_check (check_session (AF_INET 0x01020304) 100),
               Backend_check (check_session (AF_INET 0x01020304) (401/4)),
               Backend_check (check_session (AF_INET 0x01020304) (201/2))], [NaN])"
    by (simp add: process_scenario_defs ratelimit_scenario_defs)
  have 9: "process_run [check_session ?a 100, check_session ?a (401/4), ?s, check_session ?a (403/4)]
        (ratelimit_ctx 0 2)
       = Inr ([Backend_check (check_session ?a 100), Backend_check (check_session ?a (401/4)),
               Backend_check ?s, Lua_blacklist ?a ''ratelimit'', check_refused], [NaN])"
    by (simp add: process_scenario_defs ratelimit_scenario_defs)
  from ratelimit_trip_is_allowed[OF 1 2 3 4 5 6 7]
  have "\<exists>h1. rspamd_fuzzy_check_ratelimit ?s full_ctx
              = Inr (True, full_ctx\<lparr>ratelimit_buckets := Some h1\<rparr>)"
    by blast
  with 1 2 3 4 5 6 7 8 9 show ?thesis by blast
qed

subsection \<open>The receive loop\<close>





















end
